theory Spec2Isabelle
  imports Main "HOL-Library.Sublist"
begin

section \<open>Python values, exceptions and the outside world\<close>

text \<open>
  The repository holds two AWS Lambda handlers, \<^verbatim>\<open>src/lambda/app.py\<close> (the
  configuration-driven one) and \<^verbatim>\<open>src/infra/lambda/app.py\<close> (the one that
  reads the project name from the environment). Both are straight-line Python over
  dynamically typed values, so the embedding has a datatype of Python values, the
  exceptions as a datatype, and every operation that can raise returns a sum
  \<open>exn + 'a\<close> with \<open>Inl\<close> the exception.

  A Python \<^verbatim>\<open>str\<close> is a sequence of Unicode code points, modelled as a list
  of naturals; \<^verbatim>\<open>bytes\<close> is a list of 8-bit characters.
\<close>

type_synonym pystr = "nat list"

type_synonym pybytes = "char list"

definition lit :: "string \<Rightarrow> pystr" where
  "lit s = map of_char s"

text \<open>
  The values an event (decoded JSON) or a configuration (\<^verbatim>\<open>yaml.safe_load\<close>)
  can hold. A dictionary is an association list in insertion order. Floats and the other
  scalar types of YAML (dates, binary, sets) are left out: under every operation the
  handlers perform (subscripting by a \<^verbatim>\<open>str\<close> key, \<^verbatim>\<open>str.split\<close>,
  comparison with a \<^verbatim>\<open>str\<close>, rendering by \<^verbatim>\<open>str()\<close>, which never
  raises on them) they behave as \<open>PNone\<close> does.
\<close>

datatype pyval =
    PNone
  | PBool bool
  | PInt int
  | PStr pystr
  | PList "pyval list"
  | PDict "(pyval \<times> pyval) list"

datatype exn =
    KeyError
  | IndexError
  | TypeError
  | ValueError
  | ClientError
  | OtherException pystr

text \<open>
  The calls that leave the process, in the order they are issued:
  \<^verbatim>\<open>s3.Object(bucket, key).get()\<close> and
  \<^verbatim>\<open>codebuild.start_build(projectName=...)\<close>.
\<close>

datatype call =
    GetObject pystr pystr
  | StartBuild pyval

text \<open>
  What a handler run depends on besides its event: the process environment, the outcome
  of the object-storage read, the YAML parser, the outcome of the build service's
  start-build operation, and two facts of the interpreter that \<^verbatim>\<open>str()\<close>
  needs: the limit on the digits of an integer it converts
  (\<^verbatim>\<open>sys.get_int_max_str_digits()\<close>: 4300 unless configured, 0 for no limit),
  and its rendering of a list or a dictionary, which can raise. The read, the parser, the
  build service and the rendering are library or service behaviour and are parameters of
  the model. Constructing the boto3 resource and client is assumed not to raise. The
  logging calls themselves are not modelled (they return nothing the handlers use and
  report their own failures without raising); the f-strings that build their arguments
  are evaluated first and are modelled.
\<close>

record world =
  environ :: "pystr \<rightharpoonup> pystr"
  s3_object_get :: "pystr \<Rightarrow> pystr \<Rightarrow> exn + pybytes"
  yaml_safe_load :: "pybytes \<Rightarrow> exn + pyval"
  start_build :: "pyval \<Rightarrow> exn + pyval"
  int_max_str_digits :: nat
  repr_container :: "pyval \<Rightarrow> exn + pystr"

record LambdaResponse =
  isBase64Encoded :: bool
  statusCode :: int
  body :: pystr

type_synonym 'a run = "(exn + 'a) \<times> call list"

section \<open>Python operations used by the handlers\<close>

text \<open>\<^verbatim>\<open>os.environ[name]\<close>: a missing variable raises \<^verbatim>\<open>KeyError\<close>.\<close>

definition os_environ :: "world \<Rightarrow> pystr \<Rightarrow> exn + pystr" where
  "os_environ w name = (case environ w name of None \<Rightarrow> Inl KeyError | Some v \<Rightarrow> Inr v)"

text \<open>
  Key equality of a dictionary lookup: \<^verbatim>\<open>True == 1\<close> and
  \<^verbatim>\<open>False == 0\<close> with equal hashes; otherwise values of different types are
  different keys.
\<close>

fun key_eq :: "pyval \<Rightarrow> pyval \<Rightarrow> bool" where
  "key_eq (PBool b) (PInt i) = (i = (if b then 1 else 0))"
| "key_eq (PInt i) (PBool b) = (i = (if b then 1 else 0))"
| "key_eq a b = (a = b)"

fun hashable :: "pyval \<Rightarrow> bool" where
  "hashable (PList xs) = False"
| "hashable (PDict d) = False"
| "hashable v = True"

fun dict_get :: "(pyval \<times> pyval) list \<Rightarrow> pyval \<Rightarrow> pyval option" where
  "dict_get [] k = None"
| "dict_get ((k', v) # d) k = (if key_eq k' k then Some v else dict_get d k)"

text \<open>
  \<^verbatim>\<open>xs[i]\<close> on a list or a string of length \<open>n\<close>: the positions are
  \<open>0 .. n - 1\<close>, the index \<open>- k\<close> for \<open>1 \<le> k \<le> n\<close> is the position
  \<open>n - k\<close>, and any other index raises \<^verbatim>\<open>IndexError\<close>.
\<close>

definition seq_get :: "'a list \<Rightarrow> int \<Rightarrow> exn + 'a" where
  "seq_get xs i =
     (if 0 \<le> i \<and> i < int (length xs) then Inr (xs ! nat i)
      else if i < 0 \<and> - int (length xs) \<le> i then Inr (xs ! nat (int (length xs) + i))
      else Inl IndexError)"

fun as_index :: "pyval \<Rightarrow> int option" where
  "as_index (PInt i) = Some i"
| "as_index (PBool b) = Some (if b then 1 else 0)"
| "as_index v = None"

text \<open>
  The subscript \<^verbatim>\<open>v[k]\<close>: a dictionary raises \<^verbatim>\<open>KeyError\<close> on a
  missing key, a list or a string takes an integer index, anything else is not
  subscriptable.
\<close>

fun getitem :: "pyval \<Rightarrow> pyval \<Rightarrow> exn + pyval" where
  "getitem (PDict d) k =
     (if \<not> hashable k then Inl TypeError
      else case dict_get d k of None \<Rightarrow> Inl KeyError | Some v \<Rightarrow> Inr v)"
| "getitem (PList xs) k =
     (case as_index k of None \<Rightarrow> Inl TypeError | Some i \<Rightarrow> seq_get xs i)"
| "getitem (PStr s) k =
     (case as_index k of None \<Rightarrow> Inl TypeError
      | Some i \<Rightarrow> (case seq_get s i of Inl e \<Rightarrow> Inl e | Inr c \<Rightarrow> Inr (PStr [c])))"
| "getitem v k = Inl TypeError"

text \<open>A chain of subscripts \<^verbatim>\<open>v[k1][k2]...\<close>, evaluated left to right.\<close>

fun getitems :: "pyval \<Rightarrow> pyval list \<Rightarrow> exn + pyval" where
  "getitems v [] = Inr v"
| "getitems v (k # ks) = (case getitem v k of Inl e \<Rightarrow> Inl e | Inr v' \<Rightarrow> getitems v' ks)"

text \<open>
  \<^verbatim>\<open>str.split(s, sep)\<close>: the pieces of \<open>s\<close> between the occurrences of
  \<open>sep\<close>, found from the left. \<open>acc\<close> is the piece being read.
\<close>

function split_from :: "pystr \<Rightarrow> pystr \<Rightarrow> pystr \<Rightarrow> pystr list" where
  "split_from sep acc [] = [acc]"
| "split_from sep acc (c # cs) =
     (if sep \<noteq> [] \<and> prefix sep (c # cs)
      then acc # split_from sep [] (drop (length sep) (c # cs))
      else split_from sep (acc @ [c]) cs)"
  by pat_completeness auto
termination
  by (relation "measure (\<lambda>(sep, acc, s). length s)") auto

text \<open>
  Called as the unbound method, \<^verbatim>\<open>str.split\<close> raises
  \<^verbatim>\<open>TypeError\<close> when its first argument is not a \<^verbatim>\<open>str\<close>, and
  \<^verbatim>\<open>ValueError\<close> on an empty separator.
\<close>

fun str_split :: "pyval \<Rightarrow> pystr \<Rightarrow> exn + pystr list" where
  "str_split (PStr s) sep = (if sep = [] then Inl ValueError else Inr (split_from sep [] s))"
| "str_split v sep = Inl TypeError"

text \<open>The decimal digits of a natural number, without leading zeros.\<close>

function digits_of :: "nat \<Rightarrow> pystr" where
  "digits_of n = (if n < 10 then [48 + n] else digits_of (n div 10) @ [48 + n mod 10])"
  by pat_completeness auto
termination
  by (relation "measure (\<lambda>n. n)") auto

text \<open>
  \<^verbatim>\<open>str(i)\<close> of an integer: with a limit \<open>m > 0\<close> on the digits, an
  integer of more than \<open>m\<close> decimal digits, which is one of absolute value at least
  \<open>10 ^ m\<close>, raises \<^verbatim>\<open>ValueError\<close>.
\<close>

definition str_int :: "world \<Rightarrow> int \<Rightarrow> exn + pystr" where
  "str_int w i =
     (if 0 < int_max_str_digits w \<and> 10 ^ int_max_str_digits w \<le> \<bar>i\<bar> then Inl ValueError
      else if i < 0 then Inr (45 # digits_of (nat (- i)))
      else Inr (digits_of (nat i)))"

text \<open>
  A field \<^verbatim>\<open>{v}\<close> of an f-string is \<^verbatim>\<open>str(v)\<close>: a string is inserted
  as it is and never raises; an integer can exceed the digit limit; a list or a dictionary
  is rendered by the interpreter from the \<^verbatim>\<open>repr\<close> of its items.
\<close>

fun format_value :: "world \<Rightarrow> pyval \<Rightarrow> exn + pystr" where
  "format_value w (PStr s) = Inr s"
| "format_value w PNone = Inr (lit ''None'')"
| "format_value w (PBool b) = Inr (if b then lit ''True'' else lit ''False'')"
| "format_value w (PInt i) = str_int w i"
| "format_value w (PList xs) = repr_container w (PList xs)"
| "format_value w (PDict d) = repr_container w (PDict d)"

text \<open>An f-string field between single quotes: \<^verbatim>\<open>'{x}'\<close>.\<close>

definition quoted :: "pystr \<Rightarrow> pystr" where
  "quoted s = [39] @ s @ [39]"

subsection \<open>\<^verbatim>\<open>json.dumps\<close> of a string\<close>

text \<open>
  \<^verbatim>\<open>json.dumps\<close> with its defaults (\<^verbatim>\<open>ensure_ascii=True\<close>) writes a
  string between double quotes: the backslash, the double quote and the control
  characters with a short form are escaped with a backslash, the other printable ASCII
  characters stand for themselves, and every other code point becomes
  \<^verbatim>\<open>\uXXXX\<close>, as a surrogate pair above the basic plane.
\<close>

definition hexdigit :: "nat \<Rightarrow> nat" where
  "hexdigit d = (if d < 10 then 48 + d else 87 + d)"

definition hex4 :: "nat \<Rightarrow> pystr" where
  "hex4 n = [hexdigit (n div 4096 mod 16), hexdigit (n div 256 mod 16),
             hexdigit (n div 16 mod 16), hexdigit (n mod 16)]"

definition escape_char :: "nat \<Rightarrow> pystr" where
  "escape_char c =
     (if c = 92 then [92, 92]
      else if c = 34 then [92, 34]
      else if c = 8 then [92, 98]
      else if c = 12 then [92, 102]
      else if c = 10 then [92, 110]
      else if c = 13 then [92, 114]
      else if c = 9 then [92, 116]
      else if 32 \<le> c \<and> c \<le> 126 then [c]
      else if c < 65536 then [92, 117] @ hex4 c
      else [92, 117] @ hex4 (55296 + (c - 65536) div 1024 mod 1024)
         @ [92, 117] @ hex4 (56320 + (c - 65536) mod 1024))"

definition json_dumps :: "pystr \<Rightarrow> pystr" where
  "json_dumps s = [34] @ concat (map escape_char s) @ [34]"

section \<open>The configuration-driven handler (\<^verbatim>\<open>src/lambda/app.py\<close>)\<close>

text \<open>
  \<^verbatim>\<open>change_file = event['Records'][0]['s3']['object']['key']\<close>
\<close>

definition change_file :: "pyval \<Rightarrow> exn + pyval" where
  "change_file event =
     getitems event [PStr (lit ''Records''), PInt 0, PStr (lit ''s3''),
                     PStr (lit ''object''), PStr (lit ''key'')]"

text \<open>\<^verbatim>\<open>base_folder = str.split(change_file, "/")[0]\<close>\<close>

definition base_folder :: "pyval \<Rightarrow> exn + pystr" where
  "base_folder cf =
     (case str_split cf (lit ''/'') of Inl e \<Rightarrow> Inl e | Inr parts \<Rightarrow> seq_get parts 0)"

text \<open>\<^verbatim>\<open>codebuild_project = config['Folder'][base_folder]\<close>\<close>

definition codebuild_project :: "pyval \<Rightarrow> pystr \<Rightarrow> exn + pyval" where
  "codebuild_project config bf = getitems config [PStr (lit ''Folder''), PStr bf]"

text \<open>\<^verbatim>\<open>build_status = build['build']['buildStatus']\<close>\<close>

definition build_status :: "pyval \<Rightarrow> exn + pyval" where
  "build_status build = getitems build [PStr (lit ''build''), PStr (lit ''buildStatus'')]"

text \<open>
  The handler, line by line. The \<^verbatim>\<open>context\<close> argument is never used and is
  left out. Only \<^verbatim>\<open>ClientError\<close> from the read of the configuration object is
  caught; every other exception leaves the handler. The f-string of the log line before
  the start-build call renders the project, so an exception of that rendering leaves the
  handler before the call. The second component of the result lists the outside calls
  issued up to the return or the raise.
\<close>

definition lambda_handler :: "world \<Rightarrow> pyval \<Rightarrow> LambdaResponse run" where
  "lambda_handler w event =
    (case os_environ w (lit ''S3_BUCKET_NAME'') of
       Inl e \<Rightarrow> (Inl e, [])
     | Inr S3_BUCKET_NAME \<Rightarrow>
    (case os_environ w (lit ''S3_OBJECT_KEY'') of
       Inl e \<Rightarrow> (Inl e, [])
     | Inr S3_OBJECT_KEY \<Rightarrow>
    (case s3_object_get w S3_BUCKET_NAME S3_OBJECT_KEY of
       Inl e \<Rightarrow>
         (if e = ClientError
          then (Inr \<lparr>isBase64Encoded = False, statusCode = 500,
                     body = json_dumps (lit ''Failed to read config file '' @ quoted S3_OBJECT_KEY
                              @ lit '' from bucket '' @ quoted S3_BUCKET_NAME @ lit ''.'')\<rparr>,
                [GetObject S3_BUCKET_NAME S3_OBJECT_KEY])
          else (Inl e, [GetObject S3_BUCKET_NAME S3_OBJECT_KEY]))
     | Inr config_binary \<Rightarrow>
    (case yaml_safe_load w config_binary of
       Inl e \<Rightarrow> (Inl e, [GetObject S3_BUCKET_NAME S3_OBJECT_KEY])
     | Inr config \<Rightarrow>
    (case change_file event of
       Inl e \<Rightarrow> (Inl e, [GetObject S3_BUCKET_NAME S3_OBJECT_KEY])
     | Inr cf \<Rightarrow>
    (case base_folder cf of
       Inl e \<Rightarrow> (Inl e, [GetObject S3_BUCKET_NAME S3_OBJECT_KEY])
     | Inr bf \<Rightarrow>
    (case codebuild_project config bf of
       Inl e \<Rightarrow> (Inl e, [GetObject S3_BUCKET_NAME S3_OBJECT_KEY])
     | Inr project \<Rightarrow>
    (case format_value w project of
       Inl e \<Rightarrow> (Inl e, [GetObject S3_BUCKET_NAME S3_OBJECT_KEY])
     | Inr starting \<Rightarrow>
    (case start_build w project of
       Inl e \<Rightarrow> (Inl e, [GetObject S3_BUCKET_NAME S3_OBJECT_KEY, StartBuild project])
     | Inr build \<Rightarrow>
    (case build_status build of
       Inl e \<Rightarrow> (Inl e, [GetObject S3_BUCKET_NAME S3_OBJECT_KEY, StartBuild project])
     | Inr status \<Rightarrow>
       (if status \<notin> set [PStr (lit ''SUCCEEDED''), PStr (lit ''IN_PROGRESS'')]
        then
          (case format_value w project of
             Inl e \<Rightarrow> (Inl e, [GetObject S3_BUCKET_NAME S3_OBJECT_KEY, StartBuild project])
           | Inr project_text \<Rightarrow>
          (case format_value w status of
             Inl e \<Rightarrow> (Inl e, [GetObject S3_BUCKET_NAME S3_OBJECT_KEY, StartBuild project])
           | Inr status_text \<Rightarrow>
             (Inr \<lparr>isBase64Encoded = False, statusCode = 500,
                   body = json_dumps (lit ''Failed to CodeBuild project ''
                            @ quoted project_text
                            @ lit '', build status returned ''
                            @ quoted status_text)\<rparr>,
              [GetObject S3_BUCKET_NAME S3_OBJECT_KEY, StartBuild project])))
        else
          (case format_value w status of
             Inl e \<Rightarrow> (Inl e, [GetObject S3_BUCKET_NAME S3_OBJECT_KEY, StartBuild project])
           | Inr status_text \<Rightarrow>
             (Inr \<lparr>isBase64Encoded = False, statusCode = 200,
                   body = json_dumps (lit ''Build started and returned status ''
                            @ quoted status_text)\<rparr>,
              [GetObject S3_BUCKET_NAME S3_OBJECT_KEY, StartBuild project])))))))))))))"

section \<open>The handler that reads the project name from the environment
  (\<^verbatim>\<open>src/infra/lambda/app.py\<close>)\<close>

text \<open>
  The event is an argument of this handler too, and its body never mentions it. The
  project name comes from \<^verbatim>\<open>os.environ\<close>, so it is a \<^verbatim>\<open>str\<close>
  and the f-strings insert it as it is; the status comes from the answer of the build
  service and is rendered as in the other handler.
\<close>

definition infra_lambda_handler :: "world \<Rightarrow> pyval \<Rightarrow> LambdaResponse run" where
  "infra_lambda_handler w event =
    (case os_environ w (lit ''CODEBUILD_PROJECT'') of
       Inl e \<Rightarrow> (Inl e, [])
     | Inr CODEBUILD_PROJECT \<Rightarrow>
    (case start_build w (PStr CODEBUILD_PROJECT) of
       Inl e \<Rightarrow> (Inl e, [StartBuild (PStr CODEBUILD_PROJECT)])
     | Inr build \<Rightarrow>
    (case build_status build of
       Inl e \<Rightarrow> (Inl e, [StartBuild (PStr CODEBUILD_PROJECT)])
     | Inr status \<Rightarrow>
       (if status \<notin> set [PStr (lit ''SUCCEEDED''), PStr (lit ''IN_PROGRESS'')]
        then
          (case format_value w status of
             Inl e \<Rightarrow> (Inl e, [StartBuild (PStr CODEBUILD_PROJECT)])
           | Inr status_text \<Rightarrow>
             (Inr \<lparr>isBase64Encoded = False, statusCode = 500,
                   body = json_dumps (lit ''Failed to CodeBuild project ''
                            @ quoted CODEBUILD_PROJECT
                            @ lit '', build status returned ''
                            @ quoted status_text)\<rparr>,
              [StartBuild (PStr CODEBUILD_PROJECT)]))
        else
          (case format_value w status of
             Inl e \<Rightarrow> (Inl e, [StartBuild (PStr CODEBUILD_PROJECT)])
           | Inr status_text \<Rightarrow>
             (Inr \<lparr>isBase64Encoded = False, statusCode = 200,
                   body = json_dumps (lit ''Build started and returned status ''
                            @ quoted status_text)\<rparr>,
              [StartBuild (PStr CODEBUILD_PROJECT)]))))))"

section \<open>What the specification calls a JSON string\<close>

text \<open>
  The grammar of a JSON string (RFC 8259, section 7): a double quote, then characters
  that are either unescaped (any code point from U+0020 on except the double quote and
  the backslash), a backslash with one of \<^verbatim>\<open>" \ / b f n r t\<close>, or
  \<^verbatim>\<open>\u\<close> with four hexadecimal digits, then a double quote, and nothing after
  it. \<open>json_chars\<close> reads what follows the opening quote.
\<close>

definition is_hex :: "nat \<Rightarrow> bool" where
  "is_hex c = ((48 \<le> c \<and> c \<le> 57) \<or> (65 \<le> c \<and> c \<le> 70) \<or> (97 \<le> c \<and> c \<le> 102))"

fun json_chars :: "pystr \<Rightarrow> bool" where
  "json_chars [] = False"
| "json_chars (c # cs) =
     (if c = 34 then cs = []
      else if c = 92 then
        (case cs of
           [] \<Rightarrow> False
         | e # r \<Rightarrow>
             if e = 117 then
               (case r of
                  h1 # h2 # h3 # h4 # r' \<Rightarrow>
                    is_hex h1 \<and> is_hex h2 \<and> is_hex h3 \<and> is_hex h4 \<and> json_chars r'
                | _ \<Rightarrow> False)
             else e \<in> set [34, 92, 47, 98, 102, 110, 114, 116] \<and> json_chars r)
      else 32 \<le> c \<and> c \<le> 1114111 \<and> json_chars cs)"

definition is_json_string :: "pystr \<Rightarrow> bool" where
  "is_json_string s = (case s of [] \<Rightarrow> False | q # cs \<Rightarrow> q = 34 \<and> json_chars cs)"

text \<open>The characters that \<^verbatim>\<open>json.dumps\<close> writes as they are.\<close>

definition json_plain :: "nat \<Rightarrow> bool" where
  "json_plain c = (32 \<le> c \<and> c \<le> 126 \<and> c \<noteq> 34 \<and> c \<noteq> 92)"

section \<open>Concrete runs\<close>

text \<open>
  The scenarios of the specification: the configuration
  \<^verbatim>\<open>{"Folder": {"site": "site-build"}}\<close> stored under
  \<^verbatim>\<open>deploy/config.yml\<close> in the bucket \<^verbatim>\<open>blog-config\<close>, and a
  build service that knows the project \<^verbatim>\<open>site-build\<close> and answers with the
  given status.
\<close>

definition site_config :: pyval where
  "site_config =
     PDict [(PStr (lit ''Folder''), PDict [(PStr (lit ''site''), PStr (lit ''site-build''))])]"

definition s3_record :: "pystr \<Rightarrow> pystr \<Rightarrow> pyval" where
  "s3_record bucket key =
     PDict [(PStr (lit ''eventName''), PStr (lit ''ObjectCreated:Put'')),
            (PStr (lit ''s3''),
             PDict [(PStr (lit ''bucket''), PDict [(PStr (lit ''name''), PStr bucket)]),
                    (PStr (lit ''object''), PDict [(PStr (lit ''key''), PStr key)])])]"

definition s3_event :: "pyval list \<Rightarrow> pyval" where
  "s3_event records = PDict [(PStr (lit ''Records''), PList records)]"

definition build_response :: "pystr \<Rightarrow> pyval" where
  "build_response status =
     PDict [(PStr (lit ''build''),
             PDict [(PStr (lit ''id''), PStr (lit ''site-build:1'')),
                    (PStr (lit ''buildStatus''), PStr status)])]"

definition site_world :: "pystr \<Rightarrow> world" where
  "site_world status =
     \<lparr>environ = [lit ''S3_BUCKET_NAME'' \<mapsto> lit ''blog-config'',
                 lit ''S3_OBJECT_KEY'' \<mapsto> lit ''deploy/config.yml'',
                 lit ''CODEBUILD_PROJECT'' \<mapsto> lit ''site-build''],
      s3_object_get = (\<lambda>bucket key.
         if bucket = lit ''blog-config'' \<and> key = lit ''deploy/config.yml''
         then Inr ''Folder: {site: site-build}'' else Inl ClientError),
      yaml_safe_load = (\<lambda>bytes.
         if bytes = ''Folder: {site: site-build}'' then Inr site_config
         else Inl (OtherException (lit ''YAMLError''))),
      start_build = (\<lambda>project.
         if project = PStr (lit ''site-build'') then Inr (build_response status)
         else Inl ClientError),
      int_max_str_digits = 4300,
      repr_container = (\<lambda>v. Inr (lit ''<container>''))\<rparr>"

text \<open>The same world with the configuration object missing from the bucket.\<close>

definition no_config_world :: world where
  "no_config_world =
     (site_world (lit ''IN_PROGRESS''))\<lparr>s3_object_get := (\<lambda>bucket key. Inl ClientError)\<rparr>"

text \<open>The same world with a configuration object cut off in the middle.\<close>

definition broken_config_world :: world where
  "broken_config_world =
     (site_world (lit ''IN_PROGRESS''))\<lparr>s3_object_get := (\<lambda>bucket key. Inr ''Folder: {site'')\<rparr>"

text \<open>
  A configuration with two folders, \<^verbatim>\<open>site\<close> and \<^verbatim>\<open>infra\<close>, and a
  build service that knows both projects.
\<close>

definition deploy_config :: pyval where
  "deploy_config =
     PDict [(PStr (lit ''Folder''),
             PDict [(PStr (lit ''site''), PStr (lit ''site-build'')),
                    (PStr (lit ''infra''), PStr (lit ''infra-build''))])]"

definition deploy_world :: "pystr \<Rightarrow> world" where
  "deploy_world status =
     (site_world status)
       \<lparr>yaml_safe_load := (\<lambda>bytes. Inr deploy_config),
        start_build := (\<lambda>project.
          if project = PStr (lit ''site-build'') \<or> project = PStr (lit ''infra-build'')
          then Inr (build_response status) else Inl ClientError)\<rparr>"

text \<open>
  A configuration whose project for \<^verbatim>\<open>site\<close> is not a name but an integer of
  4301 digits (YAML reads an unquoted run of digits as an integer).
\<close>

definition long_number :: int where
  "long_number = 10 ^ 4300"

definition number_config :: pyval where
  "number_config =
     PDict [(PStr (lit ''Folder''), PDict [(PStr (lit ''site''), PInt long_number)])]"

definition number_world :: world where
  "number_world =
     (site_world (lit ''IN_PROGRESS''))
       \<lparr>yaml_safe_load := (\<lambda>bytes. Inr number_config),
        start_build := (\<lambda>project. Inr (build_response (lit ''IN_PROGRESS'')))\<rparr>"

section \<open>Facts about the Python operations\<close>

lemma lit_eq_iff [simp]: "lit a = lit b \<longleftrightarrow> a = b"
  unfolding lit_def by (simp add: inj_on_def)

lemma lit_slash: "lit ''/'' = [47]"
  by (simp add: lit_def)

lemma os_environ_Some: "environ w name = Some v \<Longrightarrow> os_environ w name = Inr v"
  by (simp add: os_environ_def)

lemma seq_get_Cons_0: "seq_get (x # xs) 0 = Inr x"
  by (simp add: seq_get_def)

text \<open>
  With the separator \<^verbatim>\<open>"/"\<close>, the first piece of a split is what precedes
  the first slash.
\<close>

lemma split_from_slash:
  "\<exists>ps. split_from [47] acc s = (acc @ takeWhile (\<lambda>c. c \<noteq> 47) s) # ps"
proof (induction s arbitrary: acc)
  case Nil
  show ?case by simp
next
  case (Cons c cs)
  show ?case
  proof (cases "c = 47")
    case True
    then show ?thesis by simp
  next
    case False
    with Cons [of "acc @ [c]"] show ?thesis by simp
  qed
qed

lemma base_folder_PStr: "base_folder (PStr key) = Inr (takeWhile (\<lambda>c. c \<noteq> 47) key)"
proof -
  obtain ps where "split_from [47] [] key = takeWhile (\<lambda>c. c \<noteq> 47) key # ps"
    using split_from_slash [of "[]" key] by auto
  then show ?thesis
    by (simp add: base_folder_def lit_slash seq_get_Cons_0)
qed

lemma base_folder_Inr_iff:
  "base_folder cf = Inr bf \<longleftrightarrow> (\<exists>key. cf = PStr key \<and> bf = takeWhile (\<lambda>c. c \<noteq> 47) key)"
  by (cases cf) (auto simp: base_folder_PStr, simp_all add: base_folder_def)


text \<open>
  Only the first element of \<^verbatim>\<open>event['Records']\<close> is subscripted further.
\<close>

lemma change_file_first_record:
  assumes "getitem event (PStr (lit ''Records'')) = Inr (PList (r # rest))"
  shows "change_file event = getitems r [PStr (lit ''s3''), PStr (lit ''object''), PStr (lit ''key'')]"
  using assms by (simp add: change_file_def seq_get_def)

subsection \<open>\<^verbatim>\<open>json.dumps\<close> writes a JSON string\<close>

lemma is_hex_hexdigit: "d < 16 \<Longrightarrow> is_hex (hexdigit d)"
  by (auto simp: is_hex_def hexdigit_def)

lemma json_chars_hex4: "json_chars (92 # 117 # hex4 n @ rest) = json_chars rest"
  by (simp add: hex4_def is_hex_hexdigit)

lemma json_chars_escape_char: "json_chars (escape_char c @ rest) = json_chars rest"
  unfolding escape_char_def
  by (simp add: json_chars_hex4 del: json_chars.simps) (simp)

lemma json_chars_concat_escape:
  "json_chars (concat (map escape_char s) @ rest) = json_chars rest"
  by (induction s) (simp_all add: json_chars_escape_char del: json_chars.simps)

lemma json_dumps_valid: "is_json_string (json_dumps s)"
  using json_chars_concat_escape [of s "[34]"]
  by (simp add: is_json_string_def json_dumps_def)

text \<open>
  A run of characters that need no escape is found unchanged in the encoding.
\<close>

lemma escape_char_plain: "json_plain c \<Longrightarrow> escape_char c = [c]"
  by (simp add: json_plain_def escape_char_def)

lemma concat_escape_plain:
  "\<forall>c \<in> set t. json_plain c \<Longrightarrow> concat (map escape_char t) = t"
  by (induction t) (simp_all add: escape_char_plain)

lemma json_dumps_keeps_plain:
  assumes "\<forall>c \<in> set t. json_plain c"
  shows "sublist t (json_dumps (a @ t @ b))"
proof -
  have "json_dumps (a @ t @ b)
        = ([34] @ concat (map escape_char a)) @ t @ (concat (map escape_char b) @ [34])"
    using assms by (simp add: json_dumps_def concat_escape_plain)
  then show ?thesis unfolding sublist_def by blast
qed

section \<open>The handlers after the project name is known\<close>

text \<open>
  Once the environment, the read of the configuration, the parse and the lookup have
  succeeded and the project has been rendered for the log line, the configuration-driven
  handler is the start-build call, the rendering of the status and the branch on it.
\<close>

lemma lambda_handler_resolved:
  assumes "environ w (lit ''S3_BUCKET_NAME'') = Some bucket"
    and "environ w (lit ''S3_OBJECT_KEY'') = Some cfg_key"
    and "s3_object_get w bucket cfg_key = Inr config_binary"
    and "yaml_safe_load w config_binary = Inr config"
    and "change_file event = Inr cf"
    and "base_folder cf = Inr bf"
    and "codebuild_project config bf = Inr project"
    and "format_value w project = Inr project_text"
  shows "lambda_handler w event =
    (case start_build w project of
       Inl e \<Rightarrow> (Inl e, [GetObject bucket cfg_key, StartBuild project])
     | Inr build \<Rightarrow>
    (case build_status build of
       Inl e \<Rightarrow> (Inl e, [GetObject bucket cfg_key, StartBuild project])
     | Inr status \<Rightarrow>
    (case format_value w status of
       Inl e \<Rightarrow> (Inl e, [GetObject bucket cfg_key, StartBuild project])
     | Inr status_text \<Rightarrow>
       (if status = PStr (lit ''SUCCEEDED'') \<or> status = PStr (lit ''IN_PROGRESS'')
        then (Inr \<lparr>isBase64Encoded = False, statusCode = 200,
                   body = json_dumps (lit ''Build started and returned status ''
                            @ quoted status_text)\<rparr>,
              [GetObject bucket cfg_key, StartBuild project])
        else (Inr \<lparr>isBase64Encoded = False, statusCode = 500,
                   body = json_dumps (lit ''Failed to CodeBuild project ''
                            @ quoted project_text
                            @ lit '', build status returned ''
                            @ quoted status_text)\<rparr>,
              [GetObject bucket cfg_key, StartBuild project])))))"
  using assms
  by (simp add: lambda_handler_def os_environ_Some split: sum.splits)

text \<open>
  When the rendering of the project raises, the handler raises before the start-build
  call.
\<close>

lemma lambda_handler_unrendered:
  assumes "environ w (lit ''S3_BUCKET_NAME'') = Some bucket"
    and "environ w (lit ''S3_OBJECT_KEY'') = Some cfg_key"
    and "s3_object_get w bucket cfg_key = Inr config_binary"
    and "yaml_safe_load w config_binary = Inr config"
    and "change_file event = Inr cf"
    and "base_folder cf = Inr bf"
    and "codebuild_project config bf = Inr project"
    and "format_value w project = Inl e"
  shows "lambda_handler w event = (Inl e, [GetObject bucket cfg_key])"
  using assms
  by (simp add: lambda_handler_def os_environ_Some)

text \<open>
  The other handler reaches the same point as soon as \<^verbatim>\<open>CODEBUILD_PROJECT\<close>
  is set.
\<close>

lemma infra_lambda_handler_resolved:
  assumes "environ w (lit ''CODEBUILD_PROJECT'') = Some name"
  shows "infra_lambda_handler w event =
    (case start_build w (PStr name) of
       Inl e \<Rightarrow> (Inl e, [StartBuild (PStr name)])
     | Inr build \<Rightarrow>
    (case build_status build of
       Inl e \<Rightarrow> (Inl e, [StartBuild (PStr name)])
     | Inr status \<Rightarrow>
    (case format_value w status of
       Inl e \<Rightarrow> (Inl e, [StartBuild (PStr name)])
     | Inr status_text \<Rightarrow>
       (if status = PStr (lit ''SUCCEEDED'') \<or> status = PStr (lit ''IN_PROGRESS'')
        then (Inr \<lparr>isBase64Encoded = False, statusCode = 200,
                   body = json_dumps (lit ''Build started and returned status ''
                            @ quoted status_text)\<rparr>,
              [StartBuild (PStr name)])
        else (Inr \<lparr>isBase64Encoded = False, statusCode = 500,
                   body = json_dumps (lit ''Failed to CodeBuild project ''
                            @ quoted name
                            @ lit '', build status returned ''
                            @ quoted status_text)\<rparr>,
              [StartBuild (PStr name)])))))"
  using assms
  by (simp add: infra_lambda_handler_def os_environ_Some split: sum.splits)

text \<open>
  The same two facts with every step written on the event, the configuration and the
  answer of the build service themselves.
\<close>

lemma lambda_handler_from_event:
  assumes "environ w (lit ''S3_BUCKET_NAME'') = Some bucket"
    and "environ w (lit ''S3_OBJECT_KEY'') = Some cfg_key"
    and "s3_object_get w bucket cfg_key = Inr config_binary"
    and "yaml_safe_load w config_binary = Inr config"
    and "getitems event [PStr (lit ''Records''), PInt 0, PStr (lit ''s3''),
                         PStr (lit ''object''), PStr (lit ''key'')] = Inr (PStr key)"
    and "getitems config [PStr (lit ''Folder''), PStr (takeWhile (\<lambda>c. c \<noteq> 47) key)]
         = Inr project"
    and "format_value w project = Inr project_text"
    and "start_build w project = Inr build"
    and "getitems build [PStr (lit ''build''), PStr (lit ''buildStatus'')] = Inr status"
    and "format_value w status = Inr status_text"
  shows "lambda_handler w event =
       (if status = PStr (lit ''SUCCEEDED'') \<or> status = PStr (lit ''IN_PROGRESS'')
        then (Inr \<lparr>isBase64Encoded = False, statusCode = 200,
                   body = json_dumps (lit ''Build started and returned status ''
                            @ quoted status_text)\<rparr>,
              [GetObject bucket cfg_key, StartBuild project])
        else (Inr \<lparr>isBase64Encoded = False, statusCode = 500,
                   body = json_dumps (lit ''Failed to CodeBuild project ''
                            @ quoted project_text
                            @ lit '', build status returned ''
                            @ quoted status_text)\<rparr>,
              [GetObject bucket cfg_key, StartBuild project]))"
proof -
  have cf: "change_file event = Inr (PStr key)"
    using assms(5) by (simp only: change_file_def)
  have cp: "codebuild_project config (takeWhile (\<lambda>c. c \<noteq> 47) key) = Inr project"
    using assms(6) by (simp only: codebuild_project_def)
  have bs: "build_status build = Inr status"
    using assms(9) by (simp only: build_status_def)
  show ?thesis
    unfolding lambda_handler_resolved [OF assms(1-4) cf base_folder_PStr cp assms(7)]
    using assms(8,10) bs by simp
qed

lemma infra_lambda_handler_from_answer:
  assumes "environ w (lit ''CODEBUILD_PROJECT'') = Some name"
    and "start_build w (PStr name) = Inr build"
    and "getitems build [PStr (lit ''build''), PStr (lit ''buildStatus'')] = Inr status"
    and "format_value w status = Inr status_text"
  shows "infra_lambda_handler w event =
       (if status = PStr (lit ''SUCCEEDED'') \<or> status = PStr (lit ''IN_PROGRESS'')
        then (Inr \<lparr>isBase64Encoded = False, statusCode = 200,
                   body = json_dumps (lit ''Build started and returned status ''
                            @ quoted status_text)\<rparr>,
              [StartBuild (PStr name)])
        else (Inr \<lparr>isBase64Encoded = False, statusCode = 500,
                   body = json_dumps (lit ''Failed to CodeBuild project ''
                            @ quoted name
                            @ lit '', build status returned ''
                            @ quoted status_text)\<rparr>,
              [StartBuild (PStr name)]))"
proof -
  have bs: "build_status build = Inr status"
    using assms(3) by (simp only: build_status_def)
  show ?thesis
    unfolding infra_lambda_handler_resolved [OF assms(1)]
    using assms(2,4) bs by simp
qed

text \<open>
  The event enters the configuration-driven handler through \<open>change_file\<close> only.
\<close>

lemma lambda_handler_cong:
  "change_file event1 = change_file event2 \<Longrightarrow> lambda_handler w event1 = lambda_handler w event2"
  by (simp add: lambda_handler_def cong: sum.case_cong)

text \<open>
  Each of the three \<^verbatim>\<open>return\<close> statements of a handler builds the response
  from \<^verbatim>\<open>False\<close>, 200 or 500, and a \<^verbatim>\<open>json.dumps\<close> of a string.
\<close>

lemma lambda_handler_well_formed:
  "case fst (lambda_handler w event) of
     Inl e \<Rightarrow> True
   | Inr r \<Rightarrow> isBase64Encoded r = False \<and> (statusCode r = 200 \<or> statusCode r = 500)
              \<and> is_json_string (body r)"
  by (simp add: lambda_handler_def json_dumps_valid split: sum.split)

lemma infra_lambda_handler_well_formed:
  "case fst (infra_lambda_handler w event) of
     Inl e \<Rightarrow> True
   | Inr r \<Rightarrow> isBase64Encoded r = False \<and> (statusCode r = 200 \<or> statusCode r = 500)
              \<and> is_json_string (body r)"
  by (simp add: infra_lambda_handler_def json_dumps_valid split: sum.split)

section \<open>The concrete runs\<close>

lemma site_environ:
  "environ (site_world st) (lit ''S3_BUCKET_NAME'') = Some (lit ''blog-config'')"
  "environ (site_world st) (lit ''S3_OBJECT_KEY'') = Some (lit ''deploy/config.yml'')"
  "environ (site_world st) (lit ''CODEBUILD_PROJECT'') = Some (lit ''site-build'')"
  by (simp_all add: site_world_def)

lemma site_fetch:
  "s3_object_get (site_world st) (lit ''blog-config'') (lit ''deploy/config.yml'')
   = Inr ''Folder: {site: site-build}''"
  "yaml_safe_load (site_world st) ''Folder: {site: site-build}'' = Inr site_config"
  by (simp_all add: site_world_def)

lemma site_start_build:
  "start_build (site_world st) (PStr (lit ''site-build'')) = Inr (build_response st)"
  by (simp add: site_world_def)

lemma build_status_build_response: "build_status (build_response st) = Inr (PStr st)"
  by (simp add: build_status_def build_response_def)

lemma getitems_build_response:
  "getitems (build_response st) [PStr (lit ''build''), PStr (lit ''buildStatus'')] = Inr (PStr st)"
  by (simp add: build_response_def)

lemma change_file_s3_event:
  "change_file (s3_event (s3_record bucket key # rest)) = Inr (PStr key)"
  by (simp add: change_file_def s3_event_def s3_record_def seq_get_def)

lemma getitems_s3_event:
  "getitems (s3_event (s3_record bucket key # rest))
     [PStr (lit ''Records''), PInt 0, PStr (lit ''s3''), PStr (lit ''object''), PStr (lit ''key'')]
   = Inr (PStr key)"
  by (simp add: s3_event_def s3_record_def seq_get_def)

lemma site_base_folder: "base_folder (PStr (lit ''site/index.html'')) = Inr (lit ''site'')"
  by (simp add: base_folder_PStr lit_def)

lemma segment_site: "takeWhile (\<lambda>c. c \<noteq> 47) (lit ''site/index.html'') = lit ''site''"
  by (simp add: lit_def)

lemma segment_infra: "takeWhile (\<lambda>c. c \<noteq> 47) (lit ''infra/main.tf'') = lit ''infra''"
  by (simp add: lit_def)

lemma site_project: "codebuild_project site_config (lit ''site'') = Inr (PStr (lit ''site-build''))"
  by (simp add: codebuild_project_def site_config_def)

lemma getitems_site_config:
  "getitems site_config [PStr (lit ''Folder''), PStr (lit ''site'')] = Inr (PStr (lit ''site-build''))"
  by (simp add: site_config_def)

lemma deploy_environ:
  "environ (deploy_world st) (lit ''S3_BUCKET_NAME'') = Some (lit ''blog-config'')"
  "environ (deploy_world st) (lit ''S3_OBJECT_KEY'') = Some (lit ''deploy/config.yml'')"
  by (simp_all add: deploy_world_def site_world_def)

lemma deploy_fetch:
  "s3_object_get (deploy_world st) (lit ''blog-config'') (lit ''deploy/config.yml'')
   = Inr ''Folder: {site: site-build}''"
  "yaml_safe_load (deploy_world st) ''Folder: {site: site-build}''
   = Inr (PDict [(PStr (lit ''Folder''),
                  PDict [(PStr (lit ''site''), PStr (lit ''site-build'')),
                         (PStr (lit ''infra''), PStr (lit ''infra-build''))])])"
  by (simp_all add: deploy_world_def site_world_def deploy_config_def)

lemma number_environ:
  "environ number_world (lit ''S3_BUCKET_NAME'') = Some (lit ''blog-config'')"
  "environ number_world (lit ''S3_OBJECT_KEY'') = Some (lit ''deploy/config.yml'')"
  by (simp_all add: number_world_def site_world_def)

lemma number_fetch:
  "s3_object_get number_world (lit ''blog-config'') (lit ''deploy/config.yml'')
   = Inr ''Folder: {site: site-build}''"
  "yaml_safe_load number_world ''Folder: {site: site-build}''
   = Inr (PDict [(PStr (lit ''Folder''), PDict [(PStr (lit ''site''), PInt long_number)])])"
  by (simp_all add: number_world_def site_world_def number_config_def)

lemma getitems_number_config:
  "getitems (PDict [(PStr (lit ''Folder''), PDict [(PStr (lit ''site''), PInt long_number)])])
     [PStr (lit ''Folder''), PStr (lit ''site'')] = Inr (PInt long_number)"
  by simp

text \<open>
  An integer of 4301 digits is over the limit of 4300.
\<close>

lemma long_number_raises: "format_value number_world (PInt long_number) = Inl ValueError"
  unfolding format_value.simps str_int_def long_number_def
  by (simp add: number_world_def site_world_def del: power_numeral)

lemma site_lambda_handler:
  "lambda_handler (site_world st) (s3_event (s3_record b (lit ''site/index.html'') # rest)) =
     (if st = lit ''SUCCEEDED'' \<or> st = lit ''IN_PROGRESS''
      then (Inr \<lparr>isBase64Encoded = False, statusCode = 200,
                 body = json_dumps (lit ''Build started and returned status '' @ quoted st)\<rparr>,
            [GetObject (lit ''blog-config'') (lit ''deploy/config.yml''),
             StartBuild (PStr (lit ''site-build''))])
      else (Inr \<lparr>isBase64Encoded = False, statusCode = 500,
                 body = json_dumps (lit ''Failed to CodeBuild project ''
                          @ quoted (lit ''site-build'')
                          @ lit '', build status returned '' @ quoted st)\<rparr>,
            [GetObject (lit ''blog-config'') (lit ''deploy/config.yml''),
             StartBuild (PStr (lit ''site-build''))]))"
  by (simp add: lambda_handler_resolved [OF site_environ(1) site_environ(2) site_fetch
        change_file_s3_event site_base_folder site_project format_value.simps(1)]
      site_start_build build_status_build_response)

lemma site_infra_lambda_handler:
  "infra_lambda_handler (site_world st) event =
     (if st = lit ''SUCCEEDED'' \<or> st = lit ''IN_PROGRESS''
      then (Inr \<lparr>isBase64Encoded = False, statusCode = 200,
                 body = json_dumps (lit ''Build started and returned status '' @ quoted st)\<rparr>,
            [StartBuild (PStr (lit ''site-build''))])
      else (Inr \<lparr>isBase64Encoded = False, statusCode = 500,
                 body = json_dumps (lit ''Failed to CodeBuild project ''
                          @ quoted (lit ''site-build'')
                          @ lit '', build status returned '' @ quoted st)\<rparr>,
            [StartBuild (PStr (lit ''site-build''))]))"
  by (simp add: infra_lambda_handler_resolved [OF site_environ(3)]
      site_start_build build_status_build_response)

lemma dumps_in_progress:
  "json_dumps (lit ''Build started and returned status '' @ quoted (lit ''IN_PROGRESS''))
   = lit ''\"Build started and returned status 'IN_PROGRESS'\"''"
  by (simp add: json_dumps_def quoted_def lit_def escape_char_def)

lemma dumps_succeeded:
  "json_dumps (lit ''Build started and returned status '' @ quoted (lit ''SUCCEEDED''))
   = lit ''\"Build started and returned status 'SUCCEEDED'\"''"
  by (simp add: json_dumps_def quoted_def lit_def escape_char_def)

lemma dumps_failed:
  "json_dumps (lit ''Failed to CodeBuild project '' @ quoted (lit ''site-build'')
               @ lit '', build status returned '' @ quoted (lit ''FAILED''))
   = lit ''\"Failed to CodeBuild project 'site-build', build status returned 'FAILED'\"''"
  by (simp add: json_dumps_def quoted_def lit_def escape_char_def)

lemma dumps_fault:
  "json_dumps (lit ''Failed to CodeBuild project '' @ quoted (lit ''site-build'')
               @ lit '', build status returned '' @ quoted (lit ''FAULT''))
   = lit ''\"Failed to CodeBuild project 'site-build', build status returned 'FAULT'\"''"
  by (simp add: json_dumps_def quoted_def lit_def escape_char_def)

lemma dumps_timed_out:
  "json_dumps (lit ''Failed to CodeBuild project '' @ quoted (lit ''site-build'')
               @ lit '', build status returned '' @ quoted (lit ''TIMED_OUT''))
   = lit ''\"Failed to CodeBuild project 'site-build', build status returned 'TIMED_OUT'\"''"
  by (simp add: json_dumps_def quoted_def lit_def escape_char_def)

lemma dumps_stopped:
  "json_dumps (lit ''Failed to CodeBuild project '' @ quoted (lit ''site-build'')
               @ lit '', build status returned '' @ quoted (lit ''STOPPED''))
   = lit ''\"Failed to CodeBuild project 'site-build', build status returned 'STOPPED'\"''"
  by (simp add: json_dumps_def quoted_def lit_def escape_char_def)

section \<open>An accepted build status\<close>

text \<open>
  Claim C1. For both handlers: when the start-build call returns an answer whose
  \<^verbatim>\<open>['build']['buildStatus']\<close> is \<^verbatim>\<open>'SUCCEEDED'\<close> or
  \<^verbatim>\<open>'IN_PROGRESS'\<close>, the handler returns the response with status code 200 whose
  body is the JSON encoding of the message
  \<^verbatim>\<open>Build started and returned status '<status>'\<close>, which names the returned
  status. The handler that reads the project name from the environment reaches the call
  when \<^verbatim>\<open>CODEBUILD_PROJECT\<close> is set; the configuration-driven handler when the
  configuration was read and parsed, the first record's object key has its first segment
  under \<^verbatim>\<open>Folder\<close>, and the log line before the call could render the project
  (as it can every string).
\<close>

theorem accepted_status_gives_200:
  assumes "st = lit ''SUCCEEDED'' \<or> st = lit ''IN_PROGRESS''"
    and "getitems build [PStr (lit ''build''), PStr (lit ''buildStatus'')] = Inr (PStr st)"
  shows "(environ w (lit ''CODEBUILD_PROJECT'') = Some name
          \<and> start_build w (PStr name) = Inr build
          \<longrightarrow> fst (infra_lambda_handler w event) =
                Inr \<lparr>isBase64Encoded = False, statusCode = 200,
                     body = json_dumps (lit ''Build started and returned status '' @ quoted st)\<rparr>)
       \<and> (environ w (lit ''S3_BUCKET_NAME'') = Some bucket
          \<and> environ w (lit ''S3_OBJECT_KEY'') = Some cfg_key
          \<and> s3_object_get w bucket cfg_key = Inr config_binary
          \<and> yaml_safe_load w config_binary = Inr config
          \<and> getitems event [PStr (lit ''Records''), PInt 0, PStr (lit ''s3''),
                             PStr (lit ''object''), PStr (lit ''key'')] = Inr (PStr key)
          \<and> getitems config [PStr (lit ''Folder''), PStr (takeWhile (\<lambda>c. c \<noteq> 47) key)]
              = Inr project
          \<and> format_value w project = Inr project_text
          \<and> start_build w project = Inr build
          \<longrightarrow> fst (lambda_handler w event) =
                Inr \<lparr>isBase64Encoded = False, statusCode = 200,
                     body = json_dumps (lit ''Build started and returned status '' @ quoted st)\<rparr>)"
proof (intro conjI impI)
  assume h: "environ w (lit ''CODEBUILD_PROJECT'') = Some name \<and> start_build w (PStr name) = Inr build"
  have "infra_lambda_handler w event
        = (Inr \<lparr>isBase64Encoded = False, statusCode = 200,
                 body = json_dumps (lit ''Build started and returned status '' @ quoted st)\<rparr>,
           [StartBuild (PStr name)])"
    using infra_lambda_handler_from_answer [of w name build "PStr st" st event] h assms
    by auto
  then show "fst (infra_lambda_handler w event) =
                Inr \<lparr>isBase64Encoded = False, statusCode = 200,
                     body = json_dumps (lit ''Build started and returned status '' @ quoted st)\<rparr>"
    by simp
next
  assume h: "environ w (lit ''S3_BUCKET_NAME'') = Some bucket
          \<and> environ w (lit ''S3_OBJECT_KEY'') = Some cfg_key
          \<and> s3_object_get w bucket cfg_key = Inr config_binary
          \<and> yaml_safe_load w config_binary = Inr config
          \<and> getitems event [PStr (lit ''Records''), PInt 0, PStr (lit ''s3''),
                             PStr (lit ''object''), PStr (lit ''key'')] = Inr (PStr key)
          \<and> getitems config [PStr (lit ''Folder''), PStr (takeWhile (\<lambda>c. c \<noteq> 47) key)]
              = Inr project
          \<and> format_value w project = Inr project_text
          \<and> start_build w project = Inr build"
  have "lambda_handler w event
        = (Inr \<lparr>isBase64Encoded = False, statusCode = 200,
                 body = json_dumps (lit ''Build started and returned status '' @ quoted st)\<rparr>,
           [GetObject bucket cfg_key, StartBuild project])"
    using lambda_handler_from_event [of w bucket cfg_key config_binary config event key project
        project_text build "PStr st" st] h assms
    by auto
  then show "fst (lambda_handler w event) =
                Inr \<lparr>isBase64Encoded = False, statusCode = 200,
                     body = json_dumps (lit ''Build started and returned status '' @ quoted st)\<rparr>"
    by simp
qed

text \<open>
  Scenarios 1 and 5 of the specification, for each of the two accepted statuses and each
  of the two handlers.
\<close>

theorem accepted_status_witness:
  "getitems (build_response (lit ''SUCCEEDED'')) [PStr (lit ''build''), PStr (lit ''buildStatus'')]
     = Inr (PStr (lit ''SUCCEEDED''))
   \<and> fst (infra_lambda_handler (site_world (lit ''SUCCEEDED''))
         (s3_event [s3_record (lit ''blog'') (lit ''site/index.html'')])) =
     Inr \<lparr>isBase64Encoded = False, statusCode = 200,
          body = lit ''\"Build started and returned status 'SUCCEEDED'\"''\<rparr>
   \<and> fst (lambda_handler (site_world (lit ''SUCCEEDED''))
         (s3_event [s3_record (lit ''blog'') (lit ''site/index.html'')])) =
     Inr \<lparr>isBase64Encoded = False, statusCode = 200,
          body = lit ''\"Build started and returned status 'SUCCEEDED'\"''\<rparr>
   \<and> getitems (build_response (lit ''IN_PROGRESS'')) [PStr (lit ''build''), PStr (lit ''buildStatus'')]
     = Inr (PStr (lit ''IN_PROGRESS''))
   \<and> fst (infra_lambda_handler (site_world (lit ''IN_PROGRESS''))
         (s3_event [s3_record (lit ''blog'') (lit ''site/index.html'')])) =
     Inr \<lparr>isBase64Encoded = False, statusCode = 200,
          body = lit ''\"Build started and returned status 'IN_PROGRESS'\"''\<rparr>
   \<and> fst (lambda_handler (site_world (lit ''IN_PROGRESS''))
         (s3_event [s3_record (lit ''blog'') (lit ''site/index.html'')])) =
     Inr \<lparr>isBase64Encoded = False, statusCode = 200,
          body = lit ''\"Build started and returned status 'IN_PROGRESS'\"''\<rparr>"
  using accepted_status_gives_200 [where w = "site_world (lit ''SUCCEEDED'')"
      and build = "build_response (lit ''SUCCEEDED'')" and name = "lit ''site-build''"
      and bucket = "lit ''blog-config''" and cfg_key = "lit ''deploy/config.yml''"
      and config_binary = "''Folder: {site: site-build}''" and config = site_config
      and key = "lit ''site/index.html''" and project = "PStr (lit ''site-build'')"
      and project_text = "lit ''site-build''"
      and event = "s3_event [s3_record (lit ''blog'') (lit ''site/index.html'')]" and st = "lit ''SUCCEEDED''"]
    accepted_status_gives_200 [where w = "site_world (lit ''IN_PROGRESS'')"
      and build = "build_response (lit ''IN_PROGRESS'')" and name = "lit ''site-build''"
      and bucket = "lit ''blog-config''" and cfg_key = "lit ''deploy/config.yml''"
      and config_binary = "''Folder: {site: site-build}''" and config = site_config
      and key = "lit ''site/index.html''" and project = "PStr (lit ''site-build'')"
      and project_text = "lit ''site-build''"
      and event = "s3_event [s3_record (lit ''blog'') (lit ''site/index.html'')]" and st = "lit ''IN_PROGRESS''"]
  by (simp add: site_environ site_fetch site_start_build getitems_build_response
      getitems_s3_event segment_site getitems_site_config dumps_succeeded dumps_in_progress
      del: getitems.simps)

section \<open>A rejected build status\<close>

text \<open>
  Claim C2. For both handlers: when the start-build call returns an answer whose
  \<^verbatim>\<open>['build']['buildStatus']\<close> is neither \<^verbatim>\<open>'SUCCEEDED'\<close> nor
  \<^verbatim>\<open>'IN_PROGRESS'\<close>, the handler returns the response with status code 500
  whose body is the JSON encoding of the message
  \<^verbatim>\<open>Failed to CodeBuild project '<project>', build status returned '<status>'\<close>;
  the body contains the returned status, and it contains the project name. The statuses
  of the build service are words of capital letters and underscores and project names are
  words of letters, digits, hyphens and underscores: characters that
  \<^verbatim>\<open>json.dumps\<close> writes as they are, which is the hypothesis the containment
  needs (and, for a status that is not a string, that \<^verbatim>\<open>str()\<close> renders it).
\<close>

theorem rejected_status_gives_500:
  assumes "getitems build [PStr (lit ''build''), PStr (lit ''buildStatus'')] = Inr status"
    and "status \<noteq> PStr (lit ''SUCCEEDED'')"
    and "status \<noteq> PStr (lit ''IN_PROGRESS'')"
    and "format_value w status = Inr status_text"
    and "\<forall>c \<in> set status_text. json_plain c"
  shows "(environ w (lit ''CODEBUILD_PROJECT'') = Some name
          \<and> start_build w (PStr name) = Inr build
          \<longrightarrow> (\<exists>r. fst (infra_lambda_handler w event) = Inr r
                 \<and> isBase64Encoded r = False \<and> statusCode r = 500
                 \<and> body r = json_dumps (lit ''Failed to CodeBuild project '' @ quoted name
                              @ lit '', build status returned '' @ quoted status_text)
                 \<and> sublist status_text (body r)
                 \<and> ((\<forall>c \<in> set name. json_plain c) \<longrightarrow> sublist name (body r))))
       \<and> (environ w (lit ''S3_BUCKET_NAME'') = Some bucket
          \<and> environ w (lit ''S3_OBJECT_KEY'') = Some cfg_key
          \<and> s3_object_get w bucket cfg_key = Inr config_binary
          \<and> yaml_safe_load w config_binary = Inr config
          \<and> getitems event [PStr (lit ''Records''), PInt 0, PStr (lit ''s3''),
                             PStr (lit ''object''), PStr (lit ''key'')] = Inr (PStr key)
          \<and> getitems config [PStr (lit ''Folder''), PStr (takeWhile (\<lambda>c. c \<noteq> 47) key)]
              = Inr project
          \<and> format_value w project = Inr project_text
          \<and> start_build w project = Inr build
          \<longrightarrow> (\<exists>r. fst (lambda_handler w event) = Inr r
                 \<and> isBase64Encoded r = False \<and> statusCode r = 500
                 \<and> body r = json_dumps (lit ''Failed to CodeBuild project ''
                              @ quoted project_text
                              @ lit '', build status returned '' @ quoted status_text)
                 \<and> sublist status_text (body r)
                 \<and> ((\<forall>c \<in> set project_text. json_plain c)
                     \<longrightarrow> sublist project_text (body r))))"
proof -
  have st: "\<And>p. sublist status_text
              (json_dumps (lit ''Failed to CodeBuild project '' @ quoted p
                           @ lit '', build status returned '' @ quoted status_text))"
  proof -
    fix p
    have "sublist status_text
            (json_dumps ((lit ''Failed to CodeBuild project '' @ quoted p
                           @ lit '', build status returned '' @ [39])
                         @ status_text @ [39]))"
      by (rule json_dumps_keeps_plain [OF assms(5)])
    then show "sublist status_text
              (json_dumps (lit ''Failed to CodeBuild project '' @ quoted p
                           @ lit '', build status returned '' @ quoted status_text))"
      by (simp add: quoted_def)
  qed
  have pr: "\<And>p. \<forall>c \<in> set p. json_plain c \<Longrightarrow> sublist p
              (json_dumps (lit ''Failed to CodeBuild project '' @ quoted p
                           @ lit '', build status returned '' @ quoted status_text))"
  proof -
    fix p :: pystr
    assume plain: "\<forall>c \<in> set p. json_plain c"
    have "sublist p
            (json_dumps ((lit ''Failed to CodeBuild project '' @ [39])
                         @ p @ ([39] @ lit '', build status returned '' @ quoted status_text)))"
      by (rule json_dumps_keeps_plain [OF plain])
    then show "sublist p
              (json_dumps (lit ''Failed to CodeBuild project '' @ quoted p
                           @ lit '', build status returned '' @ quoted status_text))"
      by (simp add: quoted_def)
  qed
  show ?thesis
  proof (intro conjI impI)
    assume h: "environ w (lit ''CODEBUILD_PROJECT'') = Some name
               \<and> start_build w (PStr name) = Inr build"
    have "infra_lambda_handler w event
          = (Inr \<lparr>isBase64Encoded = False, statusCode = 500,
                   body = json_dumps (lit ''Failed to CodeBuild project '' @ quoted name
                            @ lit '', build status returned '' @ quoted status_text)\<rparr>,
             [StartBuild (PStr name)])"
      using infra_lambda_handler_from_answer [of w name build status status_text event] h assms(1-4)
      by auto
    then show "\<exists>r. fst (infra_lambda_handler w event) = Inr r
                 \<and> isBase64Encoded r = False \<and> statusCode r = 500
                 \<and> body r = json_dumps (lit ''Failed to CodeBuild project '' @ quoted name
                              @ lit '', build status returned '' @ quoted status_text)
                 \<and> sublist status_text (body r)
                 \<and> ((\<forall>c \<in> set name. json_plain c) \<longrightarrow> sublist name (body r))"
      using st [of name] pr [of name] by simp
  next
    assume h: "environ w (lit ''S3_BUCKET_NAME'') = Some bucket
          \<and> environ w (lit ''S3_OBJECT_KEY'') = Some cfg_key
          \<and> s3_object_get w bucket cfg_key = Inr config_binary
          \<and> yaml_safe_load w config_binary = Inr config
          \<and> getitems event [PStr (lit ''Records''), PInt 0, PStr (lit ''s3''),
                             PStr (lit ''object''), PStr (lit ''key'')] = Inr (PStr key)
          \<and> getitems config [PStr (lit ''Folder''), PStr (takeWhile (\<lambda>c. c \<noteq> 47) key)]
              = Inr project
          \<and> format_value w project = Inr project_text
          \<and> start_build w project = Inr build"
    have "lambda_handler w event
          = (Inr \<lparr>isBase64Encoded = False, statusCode = 500,
                   body = json_dumps (lit ''Failed to CodeBuild project '' @ quoted project_text
                            @ lit '', build status returned '' @ quoted status_text)\<rparr>,
             [GetObject bucket cfg_key, StartBuild project])"
      using lambda_handler_from_event [of w bucket cfg_key config_binary config event key project
          project_text build status status_text] h assms(1-4)
      by auto
    then show "\<exists>r. fst (lambda_handler w event) = Inr r
                 \<and> isBase64Encoded r = False \<and> statusCode r = 500
                 \<and> body r = json_dumps (lit ''Failed to CodeBuild project ''
                              @ quoted project_text
                              @ lit '', build status returned '' @ quoted status_text)
                 \<and> sublist status_text (body r)
                 \<and> ((\<forall>c \<in> set project_text . json_plain c)
                     \<longrightarrow> sublist project_text (body r))"
      using st [of project_text] pr [of project_text] by simp
  qed
qed

text \<open>
  Scenario 4 of the specification, and the other three statuses the build service has
  besides the accepted two.
\<close>

theorem rejected_status_witness:
  "getitems (build_response (lit ''FAILED'')) [PStr (lit ''build''), PStr (lit ''buildStatus'')]
     = Inr (PStr (lit ''FAILED''))
   \<and> fst (infra_lambda_handler (site_world (lit ''FAILED''))
         (s3_event [s3_record (lit ''blog'') (lit ''site/index.html'')])) =
     Inr \<lparr>isBase64Encoded = False, statusCode = 500,
          body = lit ''\"Failed to CodeBuild project 'site-build', build status returned 'FAILED'\"''\<rparr>
   \<and> fst (lambda_handler (site_world (lit ''FAILED''))
         (s3_event [s3_record (lit ''blog'') (lit ''site/index.html'')])) =
     Inr \<lparr>isBase64Encoded = False, statusCode = 500,
          body = lit ''\"Failed to CodeBuild project 'site-build', build status returned 'FAILED'\"''\<rparr>
   \<and> sublist (lit ''FAILED'')
       (lit ''\"Failed to CodeBuild project 'site-build', build status returned 'FAILED'\"'')
   \<and> getitems (build_response (lit ''FAULT'')) [PStr (lit ''build''), PStr (lit ''buildStatus'')]
     = Inr (PStr (lit ''FAULT''))
   \<and> fst (infra_lambda_handler (site_world (lit ''FAULT''))
         (s3_event [s3_record (lit ''blog'') (lit ''site/index.html'')])) =
     Inr \<lparr>isBase64Encoded = False, statusCode = 500,
          body = lit ''\"Failed to CodeBuild project 'site-build', build status returned 'FAULT'\"''\<rparr>
   \<and> fst (lambda_handler (site_world (lit ''FAULT''))
         (s3_event [s3_record (lit ''blog'') (lit ''site/index.html'')])) =
     Inr \<lparr>isBase64Encoded = False, statusCode = 500,
          body = lit ''\"Failed to CodeBuild project 'site-build', build status returned 'FAULT'\"''\<rparr>
   \<and> sublist (lit ''FAULT'')
       (lit ''\"Failed to CodeBuild project 'site-build', build status returned 'FAULT'\"'')
   \<and> getitems (build_response (lit ''TIMED_OUT'')) [PStr (lit ''build''), PStr (lit ''buildStatus'')]
     = Inr (PStr (lit ''TIMED_OUT''))
   \<and> fst (infra_lambda_handler (site_world (lit ''TIMED_OUT''))
         (s3_event [s3_record (lit ''blog'') (lit ''site/index.html'')])) =
     Inr \<lparr>isBase64Encoded = False, statusCode = 500,
          body = lit ''\"Failed to CodeBuild project 'site-build', build status returned 'TIMED_OUT'\"''\<rparr>
   \<and> fst (lambda_handler (site_world (lit ''TIMED_OUT''))
         (s3_event [s3_record (lit ''blog'') (lit ''site/index.html'')])) =
     Inr \<lparr>isBase64Encoded = False, statusCode = 500,
          body = lit ''\"Failed to CodeBuild project 'site-build', build status returned 'TIMED_OUT'\"''\<rparr>
   \<and> sublist (lit ''TIMED_OUT'')
       (lit ''\"Failed to CodeBuild project 'site-build', build status returned 'TIMED_OUT'\"'')
   \<and> getitems (build_response (lit ''STOPPED'')) [PStr (lit ''build''), PStr (lit ''buildStatus'')]
     = Inr (PStr (lit ''STOPPED''))
   \<and> fst (infra_lambda_handler (site_world (lit ''STOPPED''))
         (s3_event [s3_record (lit ''blog'') (lit ''site/index.html'')])) =
     Inr \<lparr>isBase64Encoded = False, statusCode = 500,
          body = lit ''\"Failed to CodeBuild project 'site-build', build status returned 'STOPPED'\"''\<rparr>
   \<and> fst (lambda_handler (site_world (lit ''STOPPED''))
         (s3_event [s3_record (lit ''blog'') (lit ''site/index.html'')])) =
     Inr \<lparr>isBase64Encoded = False, statusCode = 500,
          body = lit ''\"Failed to CodeBuild project 'site-build', build status returned 'STOPPED'\"''\<rparr>
   \<and> sublist (lit ''STOPPED'')
       (lit ''\"Failed to CodeBuild project 'site-build', build status returned 'STOPPED'\"'')
   \<and> sublist (lit ''site-build'')
       (lit ''\"Failed to CodeBuild project 'site-build', build status returned 'FAILED'\"'')"
proof -
  have plain: "\<forall>c \<in> set (lit ''FAILED''). json_plain c"
    "\<forall>c \<in> set (lit ''FAULT''). json_plain c"
    "\<forall>c \<in> set (lit ''TIMED_OUT''). json_plain c"
    "\<forall>c \<in> set (lit ''STOPPED''). json_plain c"
    "\<forall>c \<in> set (lit ''site-build''). json_plain c"
    by (simp_all add: lit_def json_plain_def)
  have s0: "fst (infra_lambda_handler (site_world (lit ''FAILED''))
         (s3_event [s3_record (lit ''blog'') (lit ''site/index.html'')])) =
     Inr \<lparr>isBase64Encoded = False, statusCode = 500,
          body = lit ''\"Failed to CodeBuild project 'site-build', build status returned 'FAILED'\"''\<rparr>
   \<and> fst (lambda_handler (site_world (lit ''FAILED''))
         (s3_event [s3_record (lit ''blog'') (lit ''site/index.html'')])) =
     Inr \<lparr>isBase64Encoded = False, statusCode = 500,
          body = lit ''\"Failed to CodeBuild project 'site-build', build status returned 'FAILED'\"''\<rparr>
   \<and> sublist (lit ''FAILED'')
       (lit ''\"Failed to CodeBuild project 'site-build', build status returned 'FAILED'\"'')
   \<and> sublist (lit ''site-build'')
       (lit ''\"Failed to CodeBuild project 'site-build', build status returned 'FAILED'\"'')"
    using plain rejected_status_gives_500 [where w = "site_world (lit ''FAILED'')"
      and build = "build_response (lit ''FAILED'')" and name = "lit ''site-build''"
      and bucket = "lit ''blog-config''" and cfg_key = "lit ''deploy/config.yml''"
      and config_binary = "''Folder: {site: site-build}''" and config = site_config
      and key = "lit ''site/index.html''" and project = "PStr (lit ''site-build'')"
      and project_text = "lit ''site-build''"
      and event = "s3_event [s3_record (lit ''blog'') (lit ''site/index.html'')]" and status = "PStr (lit ''FAILED'')"
      and status_text = "lit ''FAILED''"]
    by (auto simp: site_environ site_fetch site_start_build getitems_build_response
        getitems_s3_event segment_site getitems_site_config dumps_failed
        simp del: getitems.simps)
  have s1: "fst (infra_lambda_handler (site_world (lit ''FAULT''))
         (s3_event [s3_record (lit ''blog'') (lit ''site/index.html'')])) =
     Inr \<lparr>isBase64Encoded = False, statusCode = 500,
          body = lit ''\"Failed to CodeBuild project 'site-build', build status returned 'FAULT'\"''\<rparr>
   \<and> fst (lambda_handler (site_world (lit ''FAULT''))
         (s3_event [s3_record (lit ''blog'') (lit ''site/index.html'')])) =
     Inr \<lparr>isBase64Encoded = False, statusCode = 500,
          body = lit ''\"Failed to CodeBuild project 'site-build', build status returned 'FAULT'\"''\<rparr>
   \<and> sublist (lit ''FAULT'')
       (lit ''\"Failed to CodeBuild project 'site-build', build status returned 'FAULT'\"'')
   \<and> sublist (lit ''site-build'')
       (lit ''\"Failed to CodeBuild project 'site-build', build status returned 'FAULT'\"'')"
    using plain rejected_status_gives_500 [where w = "site_world (lit ''FAULT'')"
      and build = "build_response (lit ''FAULT'')" and name = "lit ''site-build''"
      and bucket = "lit ''blog-config''" and cfg_key = "lit ''deploy/config.yml''"
      and config_binary = "''Folder: {site: site-build}''" and config = site_config
      and key = "lit ''site/index.html''" and project = "PStr (lit ''site-build'')"
      and project_text = "lit ''site-build''"
      and event = "s3_event [s3_record (lit ''blog'') (lit ''site/index.html'')]" and status = "PStr (lit ''FAULT'')"
      and status_text = "lit ''FAULT''"]
    by (auto simp: site_environ site_fetch site_start_build getitems_build_response
        getitems_s3_event segment_site getitems_site_config dumps_fault
        simp del: getitems.simps)
  have s2: "fst (infra_lambda_handler (site_world (lit ''TIMED_OUT''))
         (s3_event [s3_record (lit ''blog'') (lit ''site/index.html'')])) =
     Inr \<lparr>isBase64Encoded = False, statusCode = 500,
          body = lit ''\"Failed to CodeBuild project 'site-build', build status returned 'TIMED_OUT'\"''\<rparr>
   \<and> fst (lambda_handler (site_world (lit ''TIMED_OUT''))
         (s3_event [s3_record (lit ''blog'') (lit ''site/index.html'')])) =
     Inr \<lparr>isBase64Encoded = False, statusCode = 500,
          body = lit ''\"Failed to CodeBuild project 'site-build', build status returned 'TIMED_OUT'\"''\<rparr>
   \<and> sublist (lit ''TIMED_OUT'')
       (lit ''\"Failed to CodeBuild project 'site-build', build status returned 'TIMED_OUT'\"'')
   \<and> sublist (lit ''site-build'')
       (lit ''\"Failed to CodeBuild project 'site-build', build status returned 'TIMED_OUT'\"'')"
    using plain rejected_status_gives_500 [where w = "site_world (lit ''TIMED_OUT'')"
      and build = "build_response (lit ''TIMED_OUT'')" and name = "lit ''site-build''"
      and bucket = "lit ''blog-config''" and cfg_key = "lit ''deploy/config.yml''"
      and config_binary = "''Folder: {site: site-build}''" and config = site_config
      and key = "lit ''site/index.html''" and project = "PStr (lit ''site-build'')"
      and project_text = "lit ''site-build''"
      and event = "s3_event [s3_record (lit ''blog'') (lit ''site/index.html'')]" and status = "PStr (lit ''TIMED_OUT'')"
      and status_text = "lit ''TIMED_OUT''"]
    by (auto simp: site_environ site_fetch site_start_build getitems_build_response
        getitems_s3_event segment_site getitems_site_config dumps_timed_out
        simp del: getitems.simps)
  have s3: "fst (infra_lambda_handler (site_world (lit ''STOPPED''))
         (s3_event [s3_record (lit ''blog'') (lit ''site/index.html'')])) =
     Inr \<lparr>isBase64Encoded = False, statusCode = 500,
          body = lit ''\"Failed to CodeBuild project 'site-build', build status returned 'STOPPED'\"''\<rparr>
   \<and> fst (lambda_handler (site_world (lit ''STOPPED''))
         (s3_event [s3_record (lit ''blog'') (lit ''site/index.html'')])) =
     Inr \<lparr>isBase64Encoded = False, statusCode = 500,
          body = lit ''\"Failed to CodeBuild project 'site-build', build status returned 'STOPPED'\"''\<rparr>
   \<and> sublist (lit ''STOPPED'')
       (lit ''\"Failed to CodeBuild project 'site-build', build status returned 'STOPPED'\"'')
   \<and> sublist (lit ''site-build'')
       (lit ''\"Failed to CodeBuild project 'site-build', build status returned 'STOPPED'\"'')"
    using plain rejected_status_gives_500 [where w = "site_world (lit ''STOPPED'')"
      and build = "build_response (lit ''STOPPED'')" and name = "lit ''site-build''"
      and bucket = "lit ''blog-config''" and cfg_key = "lit ''deploy/config.yml''"
      and config_binary = "''Folder: {site: site-build}''" and config = site_config
      and key = "lit ''site/index.html''" and project = "PStr (lit ''site-build'')"
      and project_text = "lit ''site-build''"
      and event = "s3_event [s3_record (lit ''blog'') (lit ''site/index.html'')]" and status = "PStr (lit ''STOPPED'')"
      and status_text = "lit ''STOPPED''"]
    by (auto simp: site_environ site_fetch site_start_build getitems_build_response
        getitems_s3_event segment_site getitems_site_config dumps_stopped
        simp del: getitems.simps)
  from s0 s1 s2 s3 show ?thesis
    by (simp add: getitems_build_response del: getitems.simps)
qed

section \<open>The failed read of the configuration\<close>

text \<open>
  Claim C3. In the configuration-driven handler, when the read of the configuration
  object raises \<^verbatim>\<open>ClientError\<close>, the handler returns the response with status
  code 500 whose body is the JSON encoding of
  \<^verbatim>\<open>Failed to read config file '<key>' from bucket '<bucket>'.\<close> for the
  configured object key and bucket, and the only outside call of the run is that read:
  no start-build call is issued.
\<close>

theorem fetch_failure_gives_500_and_no_build:
  assumes "environ w (lit ''S3_BUCKET_NAME'') = Some bucket"
    and "environ w (lit ''S3_OBJECT_KEY'') = Some key"
    and "s3_object_get w bucket key = Inl ClientError"
  shows "lambda_handler w event =
           (Inr \<lparr>isBase64Encoded = False, statusCode = 500,
                 body = json_dumps (lit ''Failed to read config file '' @ quoted key
                          @ lit '' from bucket '' @ quoted bucket @ lit ''.'')\<rparr>,
            [GetObject bucket key])
         \<and> (\<forall>project. StartBuild project \<notin> set (snd (lambda_handler w event)))"
  using assms by (simp add: lambda_handler_def os_environ_Some)

text \<open>
  Scenario 3 of the specification: the configuration object is absent.
\<close>

theorem fetch_failure_witness:
  "environ no_config_world (lit ''S3_BUCKET_NAME'') = Some (lit ''blog-config'')
   \<and> environ no_config_world (lit ''S3_OBJECT_KEY'') = Some (lit ''deploy/config.yml'')
   \<and> s3_object_get no_config_world (lit ''blog-config'') (lit ''deploy/config.yml'')
       = Inl ClientError
   \<and> lambda_handler no_config_world
         (s3_event [s3_record (lit ''blog'') (lit ''site/index.html'')]) =
       (Inr \<lparr>isBase64Encoded = False, statusCode = 500,
             body = lit ''\"Failed to read config file 'deploy/config.yml' from bucket 'blog-config'.\"''\<rparr>,
        [GetObject (lit ''blog-config'') (lit ''deploy/config.yml'')])"
proof -
  have e1: "environ no_config_world (lit ''S3_BUCKET_NAME'') = Some (lit ''blog-config'')"
    and e2: "environ no_config_world (lit ''S3_OBJECT_KEY'') = Some (lit ''deploy/config.yml'')"
    and f: "s3_object_get no_config_world (lit ''blog-config'') (lit ''deploy/config.yml'')
            = Inl ClientError"
    by (simp_all add: no_config_world_def site_world_def)
  have b: "json_dumps (lit ''Failed to read config file '' @ quoted (lit ''deploy/config.yml'')
                          @ lit '' from bucket '' @ quoted (lit ''blog-config'') @ lit ''.'')
           = lit ''\"Failed to read config file 'deploy/config.yml' from bucket 'blog-config'.\"''"
    by (simp add: json_dumps_def quoted_def lit_def escape_char_def)
  from fetch_failure_gives_500_and_no_build [OF e1 e2 f] e1 e2 f b show ?thesis by simp
qed

section \<open>The lookup segment\<close>



section \<open>The project name passed to the build service\<close>

text \<open>
  Claim C5. When the configuration is a mapping whose \<^verbatim>\<open>Folder\<close> entry is
  a mapping, and the first path segment of the first record's object key is a key of
  that mapping, the project name the configuration-driven handler passes to the
  start-build operation is \<^verbatim>\<open>config["Folder"][segment]\<close>: no start-build call
  of the run carries anything else, and the run issues exactly that one call, after the
  read of the configuration, whenever the log line before the call can render the value,
  as it can every string. A value that the log line cannot render (an integer over the
  digit limit) makes the handler raise before the call.
\<close>

theorem project_name_is_folder_entry:
  assumes "environ w (lit ''S3_BUCKET_NAME'') = Some bucket"
    and "environ w (lit ''S3_OBJECT_KEY'') = Some cfg_key"
    and "s3_object_get w bucket cfg_key = Inr config_binary"
    and "yaml_safe_load w config_binary = Inr (PDict cfg)"
    and "dict_get cfg (PStr (lit ''Folder'')) = Some (PDict folder)"
    and "getitems event [PStr (lit ''Records''), PInt 0, PStr (lit ''s3''),
                         PStr (lit ''object''), PStr (lit ''key'')] = Inr (PStr key)"
    and "dict_get folder (PStr (takeWhile (\<lambda>c. c \<noteq> 47) key)) = Some project"
  shows "(\<forall>p. StartBuild p \<in> set (snd (lambda_handler w event)) \<longrightarrow> p = project)
       \<and> ((\<exists>rendering. format_value w project = Inr rendering)
           \<longrightarrow> snd (lambda_handler w event) = [GetObject bucket cfg_key, StartBuild project])
       \<and> (\<forall>e. format_value w project = Inl e
           \<longrightarrow> lambda_handler w event = (Inl e, [GetObject bucket cfg_key]))"
proof -
  have cf: "change_file event = Inr (PStr key)"
    using assms(6) by (simp only: change_file_def)
  have cp: "codebuild_project (PDict cfg) (takeWhile (\<lambda>c. c \<noteq> 47) key) = Inr project"
    using assms(5,7) by (simp add: codebuild_project_def)
  have called: "snd (lambda_handler w event) = [GetObject bucket cfg_key, StartBuild project]"
    if "format_value w project = Inr rendering" for rendering
    unfolding lambda_handler_resolved [OF assms(1-4) cf base_folder_PStr cp that]
    by (simp split: sum.splits)
  have raised: "lambda_handler w event = (Inl e, [GetObject bucket cfg_key])"
    if "format_value w project = Inl e" for e
    by (rule lambda_handler_unrendered [OF assms(1-4) cf base_folder_PStr cp that])
  have only: "p = project" if "StartBuild p \<in> set (snd (lambda_handler w event))" for p
  proof (cases "format_value w project")
    case (Inl e)
    with raised that show ?thesis by simp
  next
    case (Inr rendering)
    with called that show ?thesis by simp
  qed
  from called raised only show ?thesis by blast
qed

text \<open>
  Two keys of one configuration start two different projects, and the configuration
  with the integer of 4301 digits starts none.
\<close>

theorem project_name_witness:
  "snd (lambda_handler (deploy_world (lit ''SUCCEEDED''))
          (s3_event [s3_record (lit ''blog'') (lit ''site/index.html'')]))
     = [GetObject (lit ''blog-config'') (lit ''deploy/config.yml''),
        StartBuild (PStr (lit ''site-build''))]
   \<and> snd (lambda_handler (deploy_world (lit ''SUCCEEDED''))
          (s3_event [s3_record (lit ''blog'') (lit ''infra/main.tf'')]))
     = [GetObject (lit ''blog-config'') (lit ''deploy/config.yml''),
        StartBuild (PStr (lit ''infra-build''))]
   \<and> format_value number_world (PInt long_number) = Inl ValueError
   \<and> lambda_handler number_world
          (s3_event [s3_record (lit ''blog'') (lit ''site/index.html'')])
     = (Inl ValueError, [GetObject (lit ''blog-config'') (lit ''deploy/config.yml'')])"
proof -
  have folder: "dict_get [(PStr (lit ''Folder''),
                  PDict [(PStr (lit ''site''), PStr (lit ''site-build'')),
                         (PStr (lit ''infra''), PStr (lit ''infra-build''))])]
                 (PStr (lit ''Folder''))
                = Some (PDict [(PStr (lit ''site''), PStr (lit ''site-build'')),
                         (PStr (lit ''infra''), PStr (lit ''infra-build''))])"
    by simp
  have site: "dict_get [(PStr (lit ''site''), PStr (lit ''site-build'')),
                        (PStr (lit ''infra''), PStr (lit ''infra-build''))]
                (PStr (takeWhile (\<lambda>c. c \<noteq> 47) (lit ''site/index.html'')))
              = Some (PStr (lit ''site-build''))"
    by (simp add: segment_site)
  have infra: "dict_get [(PStr (lit ''site''), PStr (lit ''site-build'')),
                        (PStr (lit ''infra''), PStr (lit ''infra-build''))]
                (PStr (takeWhile (\<lambda>c. c \<noteq> 47) (lit ''infra/main.tf'')))
              = Some (PStr (lit ''infra-build''))"
    by (simp add: segment_infra)
  have nfolder: "dict_get [(PStr (lit ''Folder''), PDict [(PStr (lit ''site''), PInt long_number)])]
                  (PStr (lit ''Folder''))
                = Some (PDict [(PStr (lit ''site''), PInt long_number)])"
    by simp
  have number: "dict_get [(PStr (lit ''site''), PInt long_number)]
                  (PStr (takeWhile (\<lambda>c. c \<noteq> 47) (lit ''site/index.html'')))
                = Some (PInt long_number)"
    by (simp add: segment_site)
  note a = project_name_is_folder_entry [OF deploy_environ(1) [of "lit ''SUCCEEDED''"]
             deploy_environ(2) [of "lit ''SUCCEEDED''"] deploy_fetch [of "lit ''SUCCEEDED''"]
             folder getitems_s3_event [of "lit ''blog''" "lit ''site/index.html''" "[]"] site]
  note b = project_name_is_folder_entry [OF deploy_environ(1) [of "lit ''SUCCEEDED''"]
             deploy_environ(2) [of "lit ''SUCCEEDED''"] deploy_fetch [of "lit ''SUCCEEDED''"]
             folder getitems_s3_event [of "lit ''blog''" "lit ''infra/main.tf''" "[]"] infra]
  note c = project_name_is_folder_entry [OF number_environ(1) number_environ(2) number_fetch
             nfolder getitems_s3_event [of "lit ''blog''" "lit ''site/index.html''" "[]"] number]
  have fmt: "\<And>s. \<exists>rendering. format_value (deploy_world (lit ''SUCCEEDED'')) (PStr s) = Inr rendering"
    by simp
  note a' = a [THEN conjunct2, THEN conjunct1, THEN mp, OF fmt]
  note b' = b [THEN conjunct2, THEN conjunct1, THEN mp, OF fmt]
  note c' = c [THEN conjunct2, THEN conjunct2, THEN spec, THEN mp, OF long_number_raises]
  show ?thesis
    by (intro conjI) (rule a' b' c' long_number_raises)+
qed

section \<open>The shape of every response\<close>

text \<open>
  Claim C6. Every response either handler returns has \<^verbatim>\<open>isBase64Encoded\<close>
  false, the status code 200 or 500, and a body that is a JSON string: one string between
  double quotes and nothing else.
\<close>

theorem responses_are_well_formed:
  assumes "fst (lambda_handler w event) = Inr r \<or> fst (infra_lambda_handler w event) = Inr r"
  shows "isBase64Encoded r = False \<and> (statusCode r = 200 \<or> statusCode r = 500)
         \<and> is_json_string (body r)"
  using assms lambda_handler_well_formed [of w event] infra_lambda_handler_well_formed [of w event]
  by auto

theorem responses_are_well_formed_witness:
  "fst (lambda_handler (site_world (lit ''IN_PROGRESS''))
          (s3_event [s3_record (lit ''blog'') (lit ''site/index.html'')])) =
     Inr \<lparr>isBase64Encoded = False, statusCode = 200,
          body = lit ''\"Build started and returned status 'IN_PROGRESS'\"''\<rparr>
   \<and> is_json_string (lit ''\"Build started and returned status 'IN_PROGRESS'\"'')
   \<and> fst (infra_lambda_handler (site_world (lit ''FAILED'')) PNone) =
     Inr \<lparr>isBase64Encoded = False, statusCode = 500,
          body = lit ''\"Failed to CodeBuild project 'site-build', build status returned 'FAILED'\"''\<rparr>
   \<and> is_json_string
        (lit ''\"Failed to CodeBuild project 'site-build', build status returned 'FAILED'\"'')"
proof -
  have a: "fst (lambda_handler (site_world (lit ''IN_PROGRESS''))
          (s3_event [s3_record (lit ''blog'') (lit ''site/index.html'')])) =
     Inr \<lparr>isBase64Encoded = False, statusCode = 200,
          body = lit ''\"Build started and returned status 'IN_PROGRESS'\"''\<rparr>"
    by (simp add: site_lambda_handler dumps_in_progress)
  have b: "fst (infra_lambda_handler (site_world (lit ''FAILED'')) PNone) =
     Inr \<lparr>isBase64Encoded = False, statusCode = 500,
          body = lit ''\"Failed to CodeBuild project 'site-build', build status returned 'FAILED'\"''\<rparr>"
    by (simp add: site_infra_lambda_handler dumps_failed)
  from responses_are_well_formed [OF disjI1 [OF a]] responses_are_well_formed [OF disjI2 [OF b]] a b
  show ?thesis by simp
qed

section \<open>Which runs end in a response\<close>

text \<open>
  Claim C7, as the code has it. The configuration-driven handler returns a response
  exactly when both environment variables are set and either the read of the
  configuration raises \<^verbatim>\<open>ClientError\<close>, or the read succeeds, the bytes
  parse, the first record's object key is found and is a string, its first segment is
  found under \<^verbatim>\<open>Folder\<close>, the log line can render the project, the
  start-build call returns, its answer holds \<^verbatim>\<open>build.buildStatus\<close>, and the
  message can render the status. In every other run (a missing environment variable,
  another exception of the read, bytes that do not parse, an event with no records or of
  another shape, a segment absent from \<^verbatim>\<open>Folder\<close>, a project or a status
  that \<^verbatim>\<open>str()\<close> refuses, an exception of the start-build call) the handler
  raises.
\<close>

theorem lambda_handler_returns_iff:
  "(\<exists>r. fst (lambda_handler w event) = Inr r) \<longleftrightarrow>
   (\<exists>bucket cfg_key.
      environ w (lit ''S3_BUCKET_NAME'') = Some bucket
      \<and> environ w (lit ''S3_OBJECT_KEY'') = Some cfg_key
      \<and> (s3_object_get w bucket cfg_key = Inl ClientError
         \<or> (\<exists>config_binary config key project project_text build status status_text.
               s3_object_get w bucket cfg_key = Inr config_binary
               \<and> yaml_safe_load w config_binary = Inr config
               \<and> getitems event [PStr (lit ''Records''), PInt 0, PStr (lit ''s3''),
                                  PStr (lit ''object''), PStr (lit ''key'')] = Inr (PStr key)
               \<and> getitems config [PStr (lit ''Folder''),
                                   PStr (takeWhile (\<lambda>c. c \<noteq> 47) key)] = Inr project
               \<and> format_value w project = Inr project_text
               \<and> start_build w project = Inr build
               \<and> getitems build [PStr (lit ''build''), PStr (lit ''buildStatus'')] = Inr status
               \<and> format_value w status = Inr status_text)))"
proof
  assume "\<exists>r. fst (lambda_handler w event) = Inr r"
  then show "\<exists>bucket cfg_key.
      environ w (lit ''S3_BUCKET_NAME'') = Some bucket
      \<and> environ w (lit ''S3_OBJECT_KEY'') = Some cfg_key
      \<and> (s3_object_get w bucket cfg_key = Inl ClientError
         \<or> (\<exists>config_binary config key project project_text build status status_text.
               s3_object_get w bucket cfg_key = Inr config_binary
               \<and> yaml_safe_load w config_binary = Inr config
               \<and> getitems event [PStr (lit ''Records''), PInt 0, PStr (lit ''s3''),
                                  PStr (lit ''object''), PStr (lit ''key'')] = Inr (PStr key)
               \<and> getitems config [PStr (lit ''Folder''),
                                   PStr (takeWhile (\<lambda>c. c \<noteq> 47) key)] = Inr project
               \<and> format_value w project = Inr project_text
               \<and> start_build w project = Inr build
               \<and> getitems build [PStr (lit ''build''), PStr (lit ''buildStatus'')] = Inr status
               \<and> format_value w status = Inr status_text))"
    unfolding lambda_handler_def os_environ_def change_file_def [symmetric]
      codebuild_project_def [symmetric] build_status_def [symmetric]
    by (auto simp: base_folder_Inr_iff split: sum.splits option.splits if_splits)
next
  assume "\<exists>bucket cfg_key.
      environ w (lit ''S3_BUCKET_NAME'') = Some bucket
      \<and> environ w (lit ''S3_OBJECT_KEY'') = Some cfg_key
      \<and> (s3_object_get w bucket cfg_key = Inl ClientError
         \<or> (\<exists>config_binary config key project project_text build status status_text.
               s3_object_get w bucket cfg_key = Inr config_binary
               \<and> yaml_safe_load w config_binary = Inr config
               \<and> getitems event [PStr (lit ''Records''), PInt 0, PStr (lit ''s3''),
                                  PStr (lit ''object''), PStr (lit ''key'')] = Inr (PStr key)
               \<and> getitems config [PStr (lit ''Folder''),
                                   PStr (takeWhile (\<lambda>c. c \<noteq> 47) key)] = Inr project
               \<and> format_value w project = Inr project_text
               \<and> start_build w project = Inr build
               \<and> getitems build [PStr (lit ''build''), PStr (lit ''buildStatus'')] = Inr status
               \<and> format_value w status = Inr status_text))"
  then obtain bucket cfg_key where env:
      "environ w (lit ''S3_BUCKET_NAME'') = Some bucket"
      "environ w (lit ''S3_OBJECT_KEY'') = Some cfg_key"
    and alt: "s3_object_get w bucket cfg_key = Inl ClientError
         \<or> (\<exists>config_binary config key project project_text build status status_text.
               s3_object_get w bucket cfg_key = Inr config_binary
               \<and> yaml_safe_load w config_binary = Inr config
               \<and> getitems event [PStr (lit ''Records''), PInt 0, PStr (lit ''s3''),
                                  PStr (lit ''object''), PStr (lit ''key'')] = Inr (PStr key)
               \<and> getitems config [PStr (lit ''Folder''),
                                   PStr (takeWhile (\<lambda>c. c \<noteq> 47) key)] = Inr project
               \<and> format_value w project = Inr project_text
               \<and> start_build w project = Inr build
               \<and> getitems build [PStr (lit ''build''), PStr (lit ''buildStatus'')] = Inr status
               \<and> format_value w status = Inr status_text)"
    by blast
  from alt show "\<exists>r. fst (lambda_handler w event) = Inr r"
  proof
    assume "s3_object_get w bucket cfg_key = Inl ClientError"
    with env show ?thesis by (simp add: lambda_handler_def os_environ_Some)
  next
    assume "\<exists>config_binary config key project project_text build status status_text.
               s3_object_get w bucket cfg_key = Inr config_binary
               \<and> yaml_safe_load w config_binary = Inr config
               \<and> getitems event [PStr (lit ''Records''), PInt 0, PStr (lit ''s3''),
                                  PStr (lit ''object''), PStr (lit ''key'')] = Inr (PStr key)
               \<and> getitems config [PStr (lit ''Folder''),
                                   PStr (takeWhile (\<lambda>c. c \<noteq> 47) key)] = Inr project
               \<and> format_value w project = Inr project_text
               \<and> start_build w project = Inr build
               \<and> getitems build [PStr (lit ''build''), PStr (lit ''buildStatus'')] = Inr status
               \<and> format_value w status = Inr status_text"
    then obtain config_binary config key project project_text build status status_text where
      h: "s3_object_get w bucket cfg_key = Inr config_binary"
         "yaml_safe_load w config_binary = Inr config"
         "getitems event [PStr (lit ''Records''), PInt 0, PStr (lit ''s3''),
                          PStr (lit ''object''), PStr (lit ''key'')] = Inr (PStr key)"
         "getitems config [PStr (lit ''Folder''),
                           PStr (takeWhile (\<lambda>c. c \<noteq> 47) key)] = Inr project"
         "format_value w project = Inr project_text"
         "start_build w project = Inr build"
         "getitems build [PStr (lit ''build''), PStr (lit ''buildStatus'')] = Inr status"
         "format_value w status = Inr status_text"
      by blast
    show ?thesis
      unfolding lambda_handler_from_event [OF env h] by simp
  qed
qed

text \<open>
  A run through the build service, a run that ends in the handled failure of the read
  although its event has no records, and a run that raises on the integer of 4301
  digits.
\<close>

theorem lambda_handler_returns_witness:
  "(\<exists>r. fst (lambda_handler (site_world (lit ''FAILED''))
              (s3_event [s3_record (lit ''blog'') (lit ''site/index.html'')])) = Inr r)
   \<and> (\<exists>r. fst (lambda_handler no_config_world (s3_event [])) = Inr r)
   \<and> format_value number_world (PInt long_number) = Inl ValueError
   \<and> \<not> (\<exists>r. fst (lambda_handler number_world
              (s3_event [s3_record (lit ''blog'') (lit ''site/index.html'')])) = Inr r)"
proof -
  have "\<exists>r. fst (lambda_handler (site_world (lit ''FAILED''))
              (s3_event [s3_record (lit ''blog'') (lit ''site/index.html'')])) = Inr r"
    unfolding lambda_handler_returns_iff
    by (simp add: site_environ site_fetch getitems_s3_event segment_site getitems_site_config
        site_start_build getitems_build_response del: getitems.simps)
  moreover have "\<exists>r. fst (lambda_handler no_config_world (s3_event [])) = Inr r"
    unfolding lambda_handler_returns_iff
    by (simp add: no_config_world_def site_world_def)
  moreover have "\<not> (\<exists>r. fst (lambda_handler number_world
              (s3_event [s3_record (lit ''blog'') (lit ''site/index.html'')])) = Inr r)"
    unfolding lambda_handler_returns_iff
    by (auto simp: number_environ number_fetch getitems_s3_event segment_site
        getitems_number_config long_number_raises
        simp del: getitems.simps format_value.simps)
  ultimately show ?thesis using long_number_raises by simp
qed

text \<open>
  As the specification states it, the claim says that the configuration-driven handler
  never raises. It does: an event with no records leaves it with
  \<^verbatim>\<open>IndexError\<close>, a first segment absent from \<^verbatim>\<open>Folder\<close>
  (scenario 2 of the specification) with \<^verbatim>\<open>KeyError\<close>, and configuration
  bytes that do not parse with the exception of the parser.
\<close>

theorem uncaught_faults_counterexample:
  "fst (lambda_handler (site_world (lit ''IN_PROGRESS'')) (s3_event [])) = Inl IndexError
   \<and> fst (lambda_handler (site_world (lit ''IN_PROGRESS''))
            (s3_event [s3_record (lit ''blog'') (lit ''infra/main.tf'')])) = Inl KeyError
   \<and> fst (lambda_handler broken_config_world
            (s3_event [s3_record (lit ''blog'') (lit ''site/index.html'')]))
       = Inl (OtherException (lit ''YAMLError''))"
  by code_simp

section \<open>The two handlers after the project name is known\<close>

text \<open>
  Claim C8. When the configuration-driven handler resolves the project name
  \<open>name\<close> and \<^verbatim>\<open>CODEBUILD_PROJECT\<close> is that same name, then against the
  same build service both handlers end alike: the same response (status code and body) or
  the same exception, and the same start-build call, which the configuration-driven
  handler issues after its read of the configuration.
\<close>

theorem infra_handler_refines_config_handler:
  assumes "environ w (lit ''S3_BUCKET_NAME'') = Some bucket"
    and "environ w (lit ''S3_OBJECT_KEY'') = Some cfg_key"
    and "s3_object_get w bucket cfg_key = Inr config_binary"
    and "yaml_safe_load w config_binary = Inr config"
    and "change_file event = Inr cf"
    and "base_folder cf = Inr bf"
    and "codebuild_project config bf = Inr (PStr name)"
    and "environ w (lit ''CODEBUILD_PROJECT'') = Some name"
  shows "fst (lambda_handler w event) = fst (infra_lambda_handler w event')
         \<and> snd (lambda_handler w event) = GetObject bucket cfg_key # snd (infra_lambda_handler w event')"
  unfolding lambda_handler_resolved [OF assms(1-7) format_value.simps(1)]
    infra_lambda_handler_resolved [OF assms(8)]
  by (simp split: sum.splits)

theorem refinement_witness:
  "codebuild_project site_config (lit ''site'') = Inr (PStr (lit ''site-build''))
   \<and> environ (site_world (lit ''FAILED'')) (lit ''CODEBUILD_PROJECT'') = Some (lit ''site-build'')
   \<and> fst (lambda_handler (site_world (lit ''FAILED''))
            (s3_event [s3_record (lit ''blog'') (lit ''site/index.html'')]))
     = fst (infra_lambda_handler (site_world (lit ''FAILED'')) PNone)
   \<and> fst (infra_lambda_handler (site_world (lit ''FAILED'')) PNone) =
     Inr \<lparr>isBase64Encoded = False, statusCode = 500,
          body = lit ''\"Failed to CodeBuild project 'site-build', build status returned 'FAILED'\"''\<rparr>
   \<and> snd (lambda_handler (site_world (lit ''FAILED''))
            (s3_event [s3_record (lit ''blog'') (lit ''site/index.html'')]))
     = GetObject (lit ''blog-config'') (lit ''deploy/config.yml'')
       # snd (infra_lambda_handler (site_world (lit ''FAILED'')) PNone)"
proof -
  have b: "fst (infra_lambda_handler (site_world (lit ''FAILED'')) PNone) =
     Inr \<lparr>isBase64Encoded = False, statusCode = 500,
          body = lit ''\"Failed to CodeBuild project 'site-build', build status returned 'FAILED'\"''\<rparr>"
    by (simp add: site_infra_lambda_handler dumps_failed)
  from infra_handler_refines_config_handler [where w = "site_world (lit ''FAILED'')"
      and event = "s3_event [s3_record (lit ''blog'') (lit ''site/index.html'')]"
      and event' = PNone,
      OF site_environ(1) site_environ(2) site_fetch
      change_file_s3_event site_base_folder site_project site_environ(3)]
    b site_project site_environ(3)
  show ?thesis by simp
qed

section \<open>The records after the first\<close>

text \<open>
  Claim C9. The configuration-driven handler reads the first record only: two events
  whose record lists are not empty and whose first records give the same object key (or
  fail alike when subscripted) give, in the same world, the same calls and the same
  response or exception, whatever the records after the first and the rest of the
  first record are.
\<close>

theorem only_first_record_is_read:
  assumes "getitem event1 (PStr (lit ''Records'')) = Inr (PList (r1 # rest1))"
    and "getitem event2 (PStr (lit ''Records'')) = Inr (PList (r2 # rest2))"
    and "getitems r1 [PStr (lit ''s3''), PStr (lit ''object''), PStr (lit ''key'')]
         = getitems r2 [PStr (lit ''s3''), PStr (lit ''object''), PStr (lit ''key'')]"
  shows "lambda_handler w event1 = lambda_handler w event2"
  using assms by (intro lambda_handler_cong) (simp add: change_file_first_record)

text \<open>
  One record against two, the first from another bucket.
\<close>

theorem only_first_record_witness:
  "getitem (s3_event [s3_record (lit ''blog'') (lit ''site/index.html'')]) (PStr (lit ''Records''))
     = Inr (PList [s3_record (lit ''blog'') (lit ''site/index.html'')])
   \<and> getitem (s3_event [s3_record (lit ''drafts'') (lit ''site/index.html''),
                        s3_record (lit ''blog'') (lit ''infra/main.tf'')]) (PStr (lit ''Records''))
     = Inr (PList [s3_record (lit ''drafts'') (lit ''site/index.html''),
                   s3_record (lit ''blog'') (lit ''infra/main.tf'')])
   \<and> getitems (s3_record (lit ''blog'') (lit ''site/index.html''))
        [PStr (lit ''s3''), PStr (lit ''object''), PStr (lit ''key'')]
     = getitems (s3_record (lit ''drafts'') (lit ''site/index.html''))
        [PStr (lit ''s3''), PStr (lit ''object''), PStr (lit ''key'')]
   \<and> lambda_handler (site_world (lit ''SUCCEEDED''))
        (s3_event [s3_record (lit ''blog'') (lit ''site/index.html'')])
     = lambda_handler (site_world (lit ''SUCCEEDED''))
        (s3_event [s3_record (lit ''drafts'') (lit ''site/index.html''),
                   s3_record (lit ''blog'') (lit ''infra/main.tf'')])"
proof -
  have r1: "getitem (s3_event [s3_record (lit ''blog'') (lit ''site/index.html'')]) (PStr (lit ''Records''))
     = Inr (PList [s3_record (lit ''blog'') (lit ''site/index.html'')])"
    by (simp add: s3_event_def)
  have r2: "getitem (s3_event [s3_record (lit ''drafts'') (lit ''site/index.html''),
                        s3_record (lit ''blog'') (lit ''infra/main.tf'')]) (PStr (lit ''Records''))
     = Inr (PList [s3_record (lit ''drafts'') (lit ''site/index.html''),
                   s3_record (lit ''blog'') (lit ''infra/main.tf'')])"
    by (simp add: s3_event_def)
  have k: "getitems (s3_record (lit ''blog'') (lit ''site/index.html''))
        [PStr (lit ''s3''), PStr (lit ''object''), PStr (lit ''key'')]
     = getitems (s3_record (lit ''drafts'') (lit ''site/index.html''))
        [PStr (lit ''s3''), PStr (lit ''object''), PStr (lit ''key'')]"
    by (simp add: s3_record_def)
  from only_first_record_is_read [OF r1 r2 k, of "site_world (lit ''SUCCEEDED'')"] r1 r2 k
  show ?thesis by simp
qed

section \<open>The event and the handler that takes the project from the environment\<close>

text \<open>
  Claim C10. The handler of \<^verbatim>\<open>src/infra/lambda/app.py\<close> never reads its event:
  in the same world (the same \<^verbatim>\<open>CODEBUILD_PROJECT\<close> and the same answer of the
  build service), any two events give the same start-build call and the same response
  or exception.
\<close>

theorem infra_handler_ignores_event:
  "infra_lambda_handler w event1 = infra_lambda_handler w event2"
  by (simp add: infra_lambda_handler_def)

end
